theory Spec2Isabelle
  imports Complex_Main
begin

section \<open>Numbers and arrays\<close>

text \<open>
  The program computes with numpy arrays of float64. A float is embedded as an exact real
  number or one of the three special values of IEEE arithmetic; rounding, overflow and the
  sign of zero are left out. What is kept is what the claims on degenerate normalizers are
  about: numpy does not raise on a division by zero, it returns an infinity or NaN.
\<close>

datatype fl = Fin real | PInf | NInf | NaN

fun fadd :: "fl \<Rightarrow> fl \<Rightarrow> fl" where
  "fadd (Fin a) (Fin b) = Fin (a + b)"
| "fadd NaN _ = NaN"
| "fadd _ NaN = NaN"
| "fadd PInf NInf = NaN"
| "fadd NInf PInf = NaN"
| "fadd PInf _ = PInf"
| "fadd _ PInf = PInf"
| "fadd NInf _ = NInf"
| "fadd _ NInf = NInf"

definition inf_of_sign :: "real \<Rightarrow> fl" where
  "inf_of_sign x = (if 0 < x then PInf else if x < 0 then NInf else NaN)"

fun fmul :: "fl \<Rightarrow> fl \<Rightarrow> fl" where
  "fmul (Fin a) (Fin b) = Fin (a * b)"
| "fmul NaN _ = NaN"
| "fmul _ NaN = NaN"
| "fmul PInf (Fin b) = inf_of_sign b"
| "fmul (Fin a) PInf = inf_of_sign a"
| "fmul NInf (Fin b) = inf_of_sign (- b)"
| "fmul (Fin a) NInf = inf_of_sign (- a)"
| "fmul PInf PInf = PInf"
| "fmul NInf NInf = PInf"
| "fmul PInf NInf = NInf"
| "fmul NInf PInf = NInf"

text \<open>
  Division as numpy performs it: a nonzero finite value over zero is an infinity of its
  sign, zero over zero is NaN, a finite value over an infinity is zero, and an infinity
  over an infinity is NaN. No case raises.
\<close>

fun fdiv :: "fl \<Rightarrow> fl \<Rightarrow> fl" where
  "fdiv (Fin a) (Fin b) = (if b = 0 then inf_of_sign a else Fin (a / b))"
| "fdiv NaN _ = NaN"
| "fdiv _ NaN = NaN"
| "fdiv (Fin a) PInf = Fin 0"
| "fdiv (Fin a) NInf = Fin 0"
| "fdiv PInf (Fin b) = (if b < 0 then NInf else PInf)"
| "fdiv NInf (Fin b) = (if b < 0 then PInf else NInf)"
| "fdiv PInf PInf = NaN"
| "fdiv PInf NInf = NaN"
| "fdiv NInf PInf = NaN"
| "fdiv NInf NInf = NaN"

definition is_finite :: "fl \<Rightarrow> bool" where
  "is_finite x = (case x of Fin _ \<Rightarrow> True | _ \<Rightarrow> False)"

text \<open>The order of floats, used by \<open>np.max\<close> and \<open>np.argmax\<close> on values that are not NaN.\<close>

fun fless :: "fl \<Rightarrow> fl \<Rightarrow> bool" where
  "fless (Fin a) (Fin b) = (a < b)"
| "fless NaN _ = False"
| "fless _ NaN = False"
| "fless NInf NInf = False"
| "fless NInf _ = True"
| "fless _ NInf = False"
| "fless PInf _ = False"
| "fless _ PInf = True"

text \<open>\<open>np.sum\<close> of a vector and \<open>np.dot\<close> of two vectors.\<close>

definition fsum :: "fl list \<Rightarrow> fl" where
  "fsum xs = foldl fadd (Fin 0) xs"

definition vmul :: "fl list \<Rightarrow> fl list \<Rightarrow> fl list" where
  "vmul xs ys = map2 fmul xs ys"

definition dot :: "fl list \<Rightarrow> fl list \<Rightarrow> fl" where
  "dot xs ys = fsum (vmul xs ys)"

text \<open>\<open>np.dot\<close> of a matrix, given as the list of its rows, and a vector.\<close>

definition mat_vec :: "fl list list \<Rightarrow> fl list \<Rightarrow> fl list" where
  "mat_vec m v = map (\<lambda>row. dot row v) m"

text \<open>The failures the program can end in: a failed \<open>assert\<close>, and the exceptions of numpy.\<close>

datatype error = AssertionError | IndexError | ValueError

text \<open>
  An integer index into an axis of length \<open>len\<close>: numpy accepts \<open>-len \<le> i < len\<close> and
  reads a negative index from the end of the axis; every other index raises IndexError.
\<close>

definition norm_index :: "nat \<Rightarrow> int \<Rightarrow> nat option" where
  "norm_index len i =
     (if 0 \<le> i \<and> i < int len then Some (nat i)
      else if - int len \<le> i \<and> i < 0 then Some (nat (int len + i))
      else None)"

definition np_index :: "'a list \<Rightarrow> int \<Rightarrow> error + 'a" where
  "np_index xs i =
     (case norm_index (length xs) i of None \<Rightarrow> Inl IndexError | Some j \<Rightarrow> Inr (xs ! j))"

text \<open>
  A matrix is the list of its rows. \<open>np.sum(m, axis=0)\<close> is the vector of column sums; the
  number of columns is read from the first row (a matrix without rows is taken as 0 x 0).
\<close>

definition ncols :: "fl list list \<Rightarrow> nat" where
  "ncols m = (case m of [] \<Rightarrow> 0 | r # _ \<Rightarrow> length r)"

definition col_sums :: "fl list list \<Rightarrow> fl list" where
  "col_sums m = map (\<lambda>j. fsum (map (\<lambda>r. r ! j) m)) [0..<ncols m]"

text \<open>
  \<open>np.isclose\<close> with its default tolerances \<open>rtol = 1e-5\<close> and \<open>atol = 1e-8\<close>: two finite
  values are close when \<open>|a - b| \<le> atol + rtol * |b|\<close>, equal infinities are close, NaN
  is close to nothing.
\<close>

fun isclose :: "fl \<Rightarrow> fl \<Rightarrow> bool" where
  "isclose (Fin a) (Fin b) = (\<bar>a - b\<bar> \<le> 1 / 100000000 + (1 / 100000) * \<bar>b\<bar>)"
| "isclose PInf PInf = True"
| "isclose NInf NInf = True"
| "isclose _ _ = False"

text \<open>
  \<open>np.allclose\<close> on two vectors. numpy broadcasts the operands first: vectors of equal
  length are compared entry by entry, a vector of length one is compared with every entry
  of the other, and any other pair of lengths raises ValueError.
\<close>

definition np_allclose :: "fl list \<Rightarrow> fl list \<Rightarrow> error + bool" where
  "np_allclose xs ys =
     (if length xs = length ys then Inr (list_all2 isclose xs ys)
      else if length xs = 1 then Inr (list_all (\<lambda>y. isclose (hd xs) y) ys)
      else if length ys = 1 then Inr (list_all (\<lambda>x. isclose x (hd ys)) xs)
      else Inl ValueError)"

section \<open>The model and its construction\<close>

text \<open>
  The object of class \<open>HMM\<close>. The attributes that \<open>train\<close> creates are fields of the
  record from the start, empty until \<open>train\<close> sets them. Observations are Python integers.
\<close>

record hmm =
  p_transition :: "fl list list"
  p_emission :: "fl list list"
  n_hidden_states :: nat
  n_observation_classes :: nat
  observations :: "int list"
  n_observations :: nat
  observation_indices :: "int list"
  observation_labels :: "int list"
  forward :: "fl list list"
  backward :: "fl list list"
  gamma :: "fl list list list"
  delta :: "fl list list"

text \<open>
  \<open>HMM.__init__\<close>. \<open>n_hidden_states\<close> is \<open>p_transition.shape[0] - 1\<close>; for a transition
  matrix without rows that is \<open>-1\<close> and \<open>np.ones\<close> raises ValueError. The two assertions
  compare the column sums with vectors of ones by \<open>np.allclose\<close>, emission matrix first.
\<close>

definition init :: "fl list list \<Rightarrow> fl list list \<Rightarrow> error + hmm" where
  "init pt pe =
     (if pt = [] then Inl ValueError
      else
        let n = length pt - 1; k = length pe in
        case np_allclose (col_sums pe) (replicate n (Fin 1)) of
          Inl e \<Rightarrow> Inl e
        | Inr False \<Rightarrow> Inl AssertionError
        | Inr True \<Rightarrow>
            (case np_allclose (col_sums pt) (replicate (n + 1) (Fin 1)) of
               Inl e \<Rightarrow> Inl e
             | Inr False \<Rightarrow> Inl AssertionError
             | Inr True \<Rightarrow>
                 Inr \<lparr>p_transition = pt, p_emission = pe,
                      n_hidden_states = n, n_observation_classes = k,
                      observations = [], n_observations = 0,
                      observation_indices = [], observation_labels = [],
                      forward = [], backward = [], gamma = [], delta = []\<rparr>))"

section \<open>Control flow\<close>

text \<open>An exception ends the computation: the rest runs only on a normal result.\<close>

definition ebind :: "error + 'a \<Rightarrow> ('a \<Rightarrow> error + 'b) \<Rightarrow> error + 'b" where
  "ebind m f = (case m of Inl e \<Rightarrow> Inl e | Inr x \<Rightarrow> f x)"

text \<open>A \<open>for\<close> loop over the values \<open>ts\<close> whose body may raise.\<close>

fun for_loop :: "nat list \<Rightarrow> (nat \<Rightarrow> 's \<Rightarrow> error + 's) \<Rightarrow> 's \<Rightarrow> error + 's" where
  "for_loop [] body s = Inr s"
| "for_loop (t # ts) body s = ebind (body t s) (for_loop ts body)"

text \<open>Assigning to the entry of an array at an integer index.\<close>

definition np_set :: "'a list \<Rightarrow> int \<Rightarrow> 'a \<Rightarrow> error + 'a list" where
  "np_set xs i v =
     (case norm_index (length xs) i of None \<Rightarrow> Inl IndexError | Some j \<Rightarrow> Inr (xs[j := v]))"

section \<open>The observation indexer\<close>

text \<open>
  \<open>renumber_observations\<close> is \<open>observations - min(observations)\<close>; Python's \<open>min\<close> raises
  ValueError on an empty sequence, and otherwise runs through the sequence once.
\<close>

definition py_min :: "int list \<Rightarrow> error + int" where
  "py_min xs = (case xs of [] \<Rightarrow> Inl ValueError | x # r \<Rightarrow> Inr (fold min r x))"

definition renumber_observations :: "int list \<Rightarrow> error + int list" where
  "renumber_observations obs = ebind (py_min obs) (\<lambda>m. Inr (map (\<lambda>x. x - m) obs))"

section \<open>The expectation step\<close>

text \<open>
  The slices of the transition matrix: \<open>p_transition[:-1, :-1]\<close>, the block of the real
  states, and \<open>p_transition[:-1, -1]\<close>, the START column over the real states.
\<close>

definition real_block :: "fl list list \<Rightarrow> fl list list" where
  "real_block a = map butlast (butlast a)"

definition start_column :: "fl list list \<Rightarrow> fl list" where
  "start_column a = map last (butlast a)"

definition transpose_m :: "fl list list \<Rightarrow> fl list list" where
  "transpose_m m = map (\<lambda>j. map (\<lambda>r. r ! j) m) [0..<ncols m]"

text \<open>
  \<open>calc_forward_probabilities\<close>: the first row is the START column times the emission row
  of the first observation; row \<open>t\<close> is the emission row of observation \<open>t\<close> times the
  product of the real-state block with row \<open>t - 1\<close>.
\<close>

definition forward_first :: "hmm \<Rightarrow> error + hmm" where
  "forward_first s =
     ebind (np_index (observation_indices s) 0) (\<lambda>y.
     ebind (np_index (p_emission s) y) (\<lambda>b.
     ebind (np_set (forward s) 0 (vmul (start_column (p_transition s)) b)) (\<lambda>f.
     Inr (s\<lparr>forward := f\<rparr>))))"

definition forward_step :: "nat \<Rightarrow> hmm \<Rightarrow> error + hmm" where
  "forward_step t s =
     ebind (np_index (observation_indices s) (int t)) (\<lambda>y.
     ebind (np_index (p_emission s) y) (\<lambda>b.
     ebind (np_index (forward s) (int t - 1)) (\<lambda>prev.
     ebind (np_set (forward s) (int t)
              (vmul b (mat_vec (real_block (p_transition s)) prev))) (\<lambda>f.
     Inr (s\<lparr>forward := f\<rparr>)))))"

definition calc_forward_probabilities :: "hmm \<Rightarrow> error + hmm" where
  "calc_forward_probabilities s =
     ebind (forward_first s) (for_loop [1..<n_observations s] forward_step)"

text \<open>
  \<open>calc_backward_probabilities\<close>: the last row is filled with ones; row \<open>t\<close>, from
  \<open>T - 2\<close> down to 0, is the sum along axis 1 of (row \<open>t + 1\<close> times the emission row of
  observation \<open>t + 1\<close>) times the transposed real-state block.
\<close>

definition backward_last :: "hmm \<Rightarrow> error + hmm" where
  "backward_last s =
     ebind (np_index (backward s) (int (n_observations s) - 1)) (\<lambda>row.
     ebind (np_set (backward s) (int (n_observations s) - 1)
              (replicate (length row) (Fin 1))) (\<lambda>b.
     Inr (s\<lparr>backward := b\<rparr>)))"

definition backward_step :: "nat \<Rightarrow> hmm \<Rightarrow> error + hmm" where
  "backward_step t s =
     ebind (np_index (backward s) (int t + 1)) (\<lambda>nxt.
     ebind (np_index (observation_indices s) (int t + 1)) (\<lambda>y.
     ebind (np_index (p_emission s) y) (\<lambda>b.
     ebind (np_set (backward s) (int t)
              (map (\<lambda>row. fsum (vmul (vmul nxt b) row))
                 (transpose_m (real_block (p_transition s))))) (\<lambda>bw.
     Inr (s\<lparr>backward := bw\<rparr>)))))"

definition calc_backward_probabilities :: "hmm \<Rightarrow> error + hmm" where
  "calc_backward_probabilities s =
     ebind (backward_last s) (for_loop (rev [0..<n_observations s - 1]) backward_step)"

text \<open>
  \<open>calc_gamma\<close>. For each \<open>t\<close> below \<open>T - 1\<close> the two inner loops fill the slice
  \<open>gamma[t]\<close> entry by entry, and the slice is then divided by the dot product of the rows
  \<open>t\<close> of the forward and backward tables. The emission row is read inside the inner loops,
  so it is not read when there is no hidden state.
\<close>

definition gamma_step :: "nat \<Rightarrow> hmm \<Rightarrow> error + hmm" where
  "gamma_step t s =
     ebind (if n_hidden_states s = 0 then Inr []
            else ebind (np_index (observation_indices s) (int t + 1))
                   (np_index (p_emission s))) (\<lambda>b.
     let n = n_hidden_states s;
         denom = dot (forward s ! t) (backward s ! t);
         g = map (\<lambda>i. map (\<lambda>j.
               fdiv (fmul (fmul (fmul (forward s ! t ! i) (p_transition s ! j ! i))
                                (backward s ! (t + 1) ! j)) (b ! j)) denom)
               [0..<n]) [0..<n]
     in ebind (np_set (gamma s) (int t) g) (\<lambda>g'. Inr (s\<lparr>gamma := g'\<rparr>)))"

definition calc_gamma :: "hmm \<Rightarrow> error + hmm" where
  "calc_gamma s = for_loop [0..<n_observations s - 1] gamma_step s"

text \<open>
  \<open>calc_delta\<close>: the sum of \<open>gamma\<close> along its last axis, with the last row replaced by
  the last forward row divided by its sum.
\<close>

definition calc_delta :: "hmm \<Rightarrow> error + hmm" where
  "calc_delta s =
     (let d = map (map fsum) (gamma s) in
      ebind (np_index (forward s) (- 1)) (\<lambda>a.
      ebind (np_set d (- 1) (map (\<lambda>x. fdiv x (fsum a)) a)) (\<lambda>d'.
      Inr (s\<lparr>delta := d'\<rparr>))))"

definition expectation :: "hmm \<Rightarrow> error + hmm" where
  "expectation s =
     ebind (calc_forward_probabilities s) (\<lambda>s1.
     ebind (calc_backward_probabilities s1) (\<lambda>s2.
     ebind (calc_gamma s2) calc_delta))"

section \<open>The maximization step\<close>

text \<open>
  Assignments to the slices of the transition matrix: \<open>a[:-1, -1] = d\<close> replaces the last
  entry of every row but the last, \<open>a[:-1, :-1] = r\<close> replaces every entry but the last of
  every row but the last. The STOP row stays as it is.
\<close>

definition set_start_column :: "fl list list \<Rightarrow> fl list \<Rightarrow> fl list list" where
  "set_start_column a d =
     map2 (\<lambda>row x. butlast row @ [x]) (butlast a) d @ drop (length a - 1) a"

definition set_real_block :: "fl list list \<Rightarrow> fl list list \<Rightarrow> fl list list" where
  "set_real_block a r =
     map2 (\<lambda>row new. new @ drop (length row - 1) row) (butlast a) r @ drop (length a - 1) a"

text \<open>
  \<open>update_p_transition\<close>. The START column becomes \<open>delta[0]\<close>. The real-state block
  becomes \<open>np.sum(gamma[:-1], axis=0) / np.sum(delta[:-1], axis=0).reshape((-1, 1))\<close>:
  the quotient has, in row \<open>i\<close> and column \<open>j\<close>, the sum over \<open>t\<close> of \<open>gamma[t,i,j]\<close> over the
  sum over \<open>t\<close> of \<open>delta[t,i]\<close>, and is assigned to the block as it is.
\<close>

definition gamma_sum :: "hmm \<Rightarrow> nat \<Rightarrow> nat \<Rightarrow> fl" where
  "gamma_sum s i j = fsum (map (\<lambda>g. g ! i ! j) (butlast (gamma s)))"

definition delta_sum :: "hmm \<Rightarrow> nat \<Rightarrow> fl" where
  "delta_sum s i = fsum (map (\<lambda>d. d ! i) (butlast (delta s)))"

definition update_p_transition :: "hmm \<Rightarrow> error + hmm" where
  "update_p_transition s =
     ebind (np_index (delta s) 0) (\<lambda>d0.
     let n = n_hidden_states s;
         a1 = set_start_column (p_transition s) d0;
         r = map (\<lambda>i. map (\<lambda>j. fdiv (gamma_sum s i j) (delta_sum s i)) [0..<n]) [0..<n]
     in Inr (s\<lparr>p_transition := set_real_block a1 r\<rparr>))"

text \<open>
  \<open>update_p_emission\<close>. \<open>dirac\<close> is the one-hot coding of the observation indices; writing
  it raises IndexError when an index is outside the observation classes. The new emission
  matrix has, in row \<open>v\<close> and column \<open>i\<close>, the sum over \<open>t\<close> of \<open>delta[t,i] * dirac[t,v]\<close>
  over the sum over \<open>t\<close> of \<open>delta[t,i]\<close>.
\<close>

definition dirac_row :: "nat \<Rightarrow> int \<Rightarrow> error + fl list" where
  "dirac_row k y = np_set (replicate k (Fin 0)) y (Fin 1)"

fun dirac_rows :: "nat \<Rightarrow> int list \<Rightarrow> error + fl list list" where
  "dirac_rows k [] = Inr []"
| "dirac_rows k (y # ys) =
     ebind (dirac_row k y) (\<lambda>r. ebind (dirac_rows k ys) (\<lambda>rs. Inr (r # rs)))"

definition update_p_emission :: "hmm \<Rightarrow> error + hmm" where
  "update_p_emission s =
     ebind (dirac_rows (n_observation_classes s) (observation_indices s)) (\<lambda>dirac.
     let n = n_hidden_states s; k = n_observation_classes s; tt = n_observations s in
     Inr (s\<lparr>p_emission :=
            map (\<lambda>v. map (\<lambda>i.
                  fdiv (fsum (map (\<lambda>t. fmul (delta s ! t ! i) (dirac ! t ! v)) [0..<tt]))
                       (fsum (map (\<lambda>d. d ! i) (delta s))))
                  [0..<n]) [0..<k]\<rparr>))"

definition maximization :: "hmm \<Rightarrow> error + hmm" where
  "maximization s = ebind (update_p_transition s) update_p_emission"

section \<open>The trainer\<close>

text \<open>
  \<open>train\<close>: the observations are renumbered, the number of distinct labels is asserted to
  be at most the number of observation classes, the four tables are allocated with zeros,
  and the two steps run \<open>n_iterations\<close> times. \<open>np.unique\<close> gives the sorted distinct
  labels. The call to \<open>print\<close> is left out.
\<close>

definition train :: "hmm \<Rightarrow> int list \<Rightarrow> nat \<Rightarrow> error + hmm" where
  "train s obs n_iterations =
     ebind (renumber_observations obs) (\<lambda>idx.
     let labels = sort (remdups obs) in
     if \<not> length labels \<le> n_observation_classes s then Inl AssertionError
     else
       let tt = length obs; n = n_hidden_states s;
           s1 = s\<lparr>observations := obs, n_observations := tt,
                  observation_indices := idx, observation_labels := labels,
                  forward := replicate tt (replicate n (Fin 0)),
                  backward := replicate tt (replicate n (Fin 0)),
                  gamma := replicate tt (replicate n (replicate n (Fin 0))),
                  delta := replicate tt (replicate n (Fin 0))\<rparr>
       in for_loop [0..<n_iterations] (\<lambda>i s'. ebind (expectation s') maximization) s1)"

section \<open>The Viterbi decoder\<close>

text \<open>
  \<open>np.argmax\<close> of a vector: the index of the first occurrence of the maximum, where NaN
  counts as the maximum; ValueError on an empty vector.
\<close>

fun argmax_scan :: "fl list \<Rightarrow> nat \<Rightarrow> nat \<Rightarrow> fl \<Rightarrow> nat" where
  "argmax_scan [] i b v = b"
| "argmax_scan (x # xs) i b v =
     (if v \<noteq> NaN \<and> (x = NaN \<or> fless v x) then argmax_scan xs (Suc i) i x
      else argmax_scan xs (Suc i) b v)"

definition argmax_list :: "fl list \<Rightarrow> nat" where
  "argmax_list xs = argmax_scan (tl xs) 1 0 (hd xs)"

definition np_argmax :: "fl list \<Rightarrow> error + nat" where
  "np_argmax xs = (if xs = [] then Inl ValueError else Inr (argmax_list xs))"

text \<open>
  The tables \<open>t1\<close> and \<open>t2\<close> of \<open>viterbi\<close> are kept as the lists of their columns:
  \<open>t1[:, t]\<close> is \<open>t1 ! t\<close>. In the step for \<open>t\<close>, the matrix \<open>s\<close> has in row \<open>i\<close> and
  column \<open>j\<close> the product \<open>t1[j, t-1] * p_transition[i, j] * p_emission[y_t, i]\<close>;
  \<open>np.max\<close> and \<open>np.argmax\<close> along axis 1 raise ValueError when that axis is empty.
\<close>

definition viterbi_step ::
  "hmm \<Rightarrow> int list \<Rightarrow> nat \<Rightarrow> fl list list \<times> nat list list \<Rightarrow>
   error + fl list list \<times> nat list list" where
  "viterbi_step s idx t tabs =
     ebind (np_index idx (int t)) (\<lambda>y.
     ebind (np_index (p_emission s) y) (\<lambda>b.
     ebind (np_index (fst tabs) (int t - 1)) (\<lambda>prev.
     let n = n_hidden_states s;
         sm = map (\<lambda>i. map (\<lambda>j.
                fmul (fmul (prev ! j) (real_block (p_transition s) ! i ! j)) (b ! i))
                [0..<n]) [0..<n]
     in if n = 0 then Inl ValueError
        else
          ebind (np_set (fst tabs) (int t) (map (\<lambda>r. r ! argmax_list r) sm)) (\<lambda>t1.
          ebind (np_set (snd tabs) (int t) (map argmax_list sm)) (\<lambda>t2.
          Inr (t1, t2))))))"

text \<open>
  \<open>viterbi\<close>. The assertion is the statement
  \<open>assert(len(set(observation_indices))) <= self.n_observation_classes\<close>; \<open>assert\<close> is a
  statement and not a function, so the asserted expression is the whole comparison
  \<open>(len(set(observation_indices))) <= self.n_observation_classes\<close>. Plotting is left out.
\<close>

definition viterbi :: "hmm \<Rightarrow> int list \<Rightarrow> error + nat list" where
  "viterbi s obs =
     ebind (renumber_observations obs) (\<lambda>idx.
     if \<not> length (remdups idx) \<le> n_observation_classes s then Inl AssertionError
     else
       let tt = length obs; n = n_hidden_states s;
           t1 = replicate tt (replicate n (Fin 0));
           t2 = replicate tt (replicate n (0::nat));
           states = replicate tt (0::nat)
       in
       ebind (np_index idx 0) (\<lambda>y0.
       ebind (np_index (p_emission s) y0) (\<lambda>b.
       ebind (np_set t1 0 (vmul (start_column (p_transition s)) b)) (\<lambda>t1'.
       ebind (for_loop [1..<tt] (viterbi_step s idx) (t1', t2)) (\<lambda>tabs.
       ebind (np_index (fst tabs) (- 1)) (\<lambda>lastcol.
       ebind (np_argmax lastcol) (\<lambda>m.
       ebind (np_set states (- 1) m) (\<lambda>st.
       Inr (fold (\<lambda>t st'. st'[t - 1 := snd tabs ! t ! (st' ! t)]) (rev [1..<tt]) st)))))))))"

section \<open>Shapes\<close>

text \<open>
  The shapes that the docstring of the constructor gives: the transition matrix is
  \<open>(n_hidden_states + 1) x (n_hidden_states + 1)\<close>, the emission matrix is
  \<open>n_observation_classes x n_hidden_states\<close>. The array arithmetic above is the
  arithmetic of numpy on operands of these shapes, which need no broadcasting.
\<close>

definition shaped :: "hmm \<Rightarrow> bool" where
  "shaped s =
     (length (p_transition s) = n_hidden_states s + 1 \<and>
      list_all (\<lambda>r. length r = n_hidden_states s + 1) (p_transition s) \<and>
      length (p_emission s) = n_observation_classes s \<and>
      list_all (\<lambda>r. length r = n_hidden_states s) (p_emission s))"

text \<open>The state in which \<open>train\<close> runs its steps: one index and one table row per observation.\<close>

definition tables_ok :: "hmm \<Rightarrow> bool" where
  "tables_ok s =
     (length (observation_indices s) = n_observations s \<and>
      length (forward s) = n_observations s \<and>
      list_all (\<lambda>r. length r = n_hidden_states s) (forward s) \<and>
      length (backward s) = n_observations s \<and>
      list_all (\<lambda>r. length r = n_hidden_states s) (backward s) \<and>
      length (gamma s) = n_observations s \<and>
      list_all (\<lambda>g. length g = n_hidden_states s \<and>
                     list_all (\<lambda>r. length r = n_hidden_states s) g) (gamma s) \<and>
      length (delta s) = n_observations s \<and>
      list_all (\<lambda>r. length r = n_hidden_states s) (delta s))"

text \<open>Every observation index addresses a row of the emission matrix.\<close>

definition indices_ok :: "hmm \<Rightarrow> bool" where
  "indices_ok s =
     list_all (\<lambda>y. 0 \<le> y \<and> y < int (n_observation_classes s)) (observation_indices s)"

section \<open>Rounding and the order of products\<close>

text \<open>
  The embedding multiplies exactly, and float64 returns the exact product rounded to the
  nearest float. Rounding is a function of the exact product, so equal products stay equal.
  For a product that is zero or of a magnitude from \<open>2^-1022\<close> to \<open>2^1023\<close> the relative
  error of rounding is at most \<open>2^-53\<close>, so two such products that are apart by more than
  \<open>2^-52\<close> of the larger magnitude stay apart, in their order. \<open>keeps_order p q\<close> says
  that of a pair of products: both are finite, \<open>p\<close> is in that range, and they are equal
  or that far apart. On a vector whose pairs all satisfy it, the order of the exact
  products is the order of the products that the program computes, ties included.
\<close>

fun keeps_order :: "fl \<Rightarrow> fl \<Rightarrow> bool" where
  "keeps_order (Fin a) (Fin b) =
     ((a = 0 \<or> (1 / 2 ^ 1022 \<le> \<bar>a\<bar> \<and> \<bar>a\<bar> \<le> 2 ^ 1023)) \<and>
      (a = b \<or> max \<bar>a\<bar> \<bar>b\<bar> / 2 ^ 52 < \<bar>a - b\<bar>))"
| "keeps_order _ _ = False"

definition rounding_safe :: "fl list \<Rightarrow> bool" where
  "rounding_safe ps = list_all (\<lambda>p. list_all (keeps_order p) ps) ps"

text \<open>
  The scores of the hidden states at the first observation of a sequence of length one: the
  entry of the START column times the entry of row 0 of the emission matrix.
\<close>

definition first_scores :: "hmm \<Rightarrow> fl list" where
  "first_scores s =
     map (\<lambda>i. fmul (p_transition s ! i ! n_hidden_states s) (p_emission s ! 0 ! i))
       [0..<n_hidden_states s]"

section \<open>Concrete models\<close>

text \<open>
  A model with two hidden states and two observation classes whose transition block is not
  symmetric; the constructor accepts it.
\<close>

definition ex_A :: "fl list list" where
  "ex_A = [[Fin (1/2), Fin (1/4), Fin (1/2)],
           [Fin (1/2), Fin (3/4), Fin (1/2)],
           [Fin 0, Fin 0, Fin 0]]"

definition ex_B :: "fl list list" where
  "ex_B = [[Fin (1/2), Fin (1/4)], [Fin (1/2), Fin (3/4)]]"

definition ex_hmm :: hmm where
  "ex_hmm = \<lparr>p_transition = ex_A, p_emission = ex_B,
      n_hidden_states = 2, n_observation_classes = 2,
      observations = [], n_observations = 0,
      observation_indices = [], observation_labels = [],
      forward = [], backward = [], gamma = [], delta = []\<rparr>"

text \<open>
  The state in which \<open>train\<close> starts its iterations on the model above and the
  observations 0, 1: the indices are set and the four tables are filled with zeros.
\<close>

definition ex_state :: hmm where
  "ex_state = ex_hmm\<lparr>observations := [0, 1], n_observations := 2,
      observation_indices := [0, 1], observation_labels := [0, 1],
      forward := [[Fin 0, Fin 0], [Fin 0, Fin 0]],
      backward := [[Fin 0, Fin 0], [Fin 0, Fin 0]],
      gamma := [[[Fin 0, Fin 0], [Fin 0, Fin 0]], [[Fin 0, Fin 0], [Fin 0, Fin 0]]],
      delta := [[Fin 0, Fin 0], [Fin 0, Fin 0]]\<rparr>"

text \<open>The same state after the forward and the backward pass.\<close>

definition ex_fb :: hmm where
  "ex_fb = ex_state\<lparr>forward := [[Fin (1/4), Fin (1/8)], [Fin (5/64), Fin (21/128)]],
                    backward := [[Fin (5/8), Fin (11/16)], [Fin 1, Fin 1]]\<rparr>"

text \<open>The model above after \<open>train\<close> with the observations 0, 1 and one iteration.\<close>

definition ex_trained :: hmm where
  "ex_trained = ex_state\<lparr>
      p_transition := [[Fin (2/5), Fin (3/5), Fin (20/31)],
                       [Fin (2/11), Fin (9/11), Fin (11/31)],
                       [Fin 0, Fin 0, Fin 0]],
      p_emission := [[Fin (2/3), Fin (11/32)], [Fin (1/3), Fin (21/32)]],
      forward := [[Fin (1/4), Fin (1/8)], [Fin (5/64), Fin (21/128)]],
      backward := [[Fin (5/8), Fin (11/16)], [Fin 1, Fin 1]],
      gamma := [[[Fin (8/31), Fin (12/31)], [Fin (2/31), Fin (9/31)]],
                [[Fin 0, Fin 0], [Fin 0, Fin 0]]],
      delta := [[Fin (20/31), Fin (11/31)], [Fin (10/31), Fin (21/31)]]\<rparr>"

text \<open>
  A model whose hidden states never emit the observation class 1; its emission columns
  sum to 1 and the constructor accepts it. \<open>deg_fb\<close> is the state of \<open>train\<close> on the
  observations 0, 1 after the first forward and backward pass.
\<close>

definition deg_B :: "fl list list" where
  "deg_B = [[Fin 1, Fin 1], [Fin 0, Fin 0]]"

definition deg_hmm :: hmm where
  "deg_hmm = ex_hmm\<lparr>p_emission := deg_B\<rparr>"

definition deg_fb :: hmm where
  "deg_fb = ex_state\<lparr>p_emission := deg_B,
      forward := [[Fin (1/2), Fin (1/2)], [Fin 0, Fin 0]],
      backward := [[Fin 0, Fin 0], [Fin 1, Fin 1]]\<rparr>"

text \<open>
  A model with three hidden states and two observation classes; the constructor accepts
  it. With row 0 of the emission matrix the scores of the states are \<open>1/8\<close>, \<open>3/16\<close>,
  \<open>3/16\<close>: the states 1 and 2 tie above state 0. With row 1 they are \<open>3/8\<close>, \<open>1/16\<close>,
  \<open>1/16\<close>.
\<close>

definition dec_A :: "fl list list" where
  "dec_A = [[Fin (1/2), Fin (1/4), Fin (1/4), Fin (1/2)],
            [Fin (1/4), Fin (1/2), Fin (1/4), Fin (1/4)],
            [Fin (1/4), Fin (1/4), Fin (1/2), Fin (1/4)],
            [Fin 0, Fin 0, Fin 0, Fin 0]]"

definition dec_B :: "fl list list" where
  "dec_B = [[Fin (1/4), Fin (3/4), Fin (3/4)], [Fin (3/4), Fin (1/4), Fin (1/4)]]"

definition dec_hmm :: hmm where
  "dec_hmm = \<lparr>p_transition = dec_A, p_emission = dec_B,
      n_hidden_states = 3, n_observation_classes = 2,
      observations = [], n_observations = 0,
      observation_indices = [], observation_labels = [],
      forward = [], backward = [], gamma = [], delta = []\<rparr>"

section \<open>Enclosures\<close>

text \<open>
  Five iterations of training produce exact values with several hundred thousand digits.
  To bound them, every value is enclosed in an interval with end points on the grid of
  multiples of \<open>1e-12\<close>: the pair \<open>(l, h)\<close> of integers stands for the interval from
  \<open>l * 1e-12\<close> to \<open>h * 1e-12\<close>. The operations round the lower end down and the upper
  end up. An interval that is not proper (negative, empty, or a divisor that contains zero)
  makes the result improper, and an improper interval promises nothing.
\<close>

type_synonym iv = "int \<times> int"

definition scale :: int where "scale = 1000000000000"

definition scaled :: "int \<Rightarrow> real" where
  "scaled k = of_int k / of_int scale"

definition izero :: iv where "izero = (0, 0)"
definition ione :: iv where "ione = (1000000000000, 1000000000000)"

fun proper :: "iv \<Rightarrow> bool" where
  "proper (l, h) = (0 \<le> l \<and> l \<le> h)"

fun imul :: "iv \<Rightarrow> iv \<Rightarrow> iv" where
  "imul (l1, h1) (l2, h2) =
     (if 0 \<le> l1 \<and> l1 \<le> h1 \<and> 0 \<le> l2 \<and> l2 \<le> h2
      then (l1 * l2 div 1000000000000, h1 * h2 div 1000000000000 + 1) else (1, 0))"

fun iadd :: "iv \<Rightarrow> iv \<Rightarrow> iv" where
  "iadd (l1, h1) (l2, h2) =
     (if 0 \<le> l1 \<and> l1 \<le> h1 \<and> 0 \<le> l2 \<and> l2 \<le> h2
      then (l1 + l2, h1 + h2) else (1, 0))"

fun idiv :: "iv \<Rightarrow> iv \<Rightarrow> iv" where
  "idiv (l1, h1) (l2, h2) =
     (if 0 \<le> l1 \<and> l1 \<le> h1 \<and> 0 < l2 \<and> l2 \<le> h2
      then (l1 * 1000000000000 div h2, h1 * 1000000000000 div l2 + 1) else (1, 0))"

text \<open>
  One iteration of training on intervals, for the observation indices \<open>ys\<close> and a box
  \<open>(ia, ib)\<close>: \<open>ia\<close> holds the rows of the real states of the transition matrix (the
  real-state block and the START column), \<open>ib\<close> the emission matrix. The functions follow
  \<open>calc_forward_probabilities\<close>, \<open>calc_backward_probabilities\<close>, \<open>calc_gamma\<close>,
  \<open>calc_delta\<close>, \<open>update_p_transition\<close> and \<open>update_p_emission\<close> operation by operation.
\<close>

definition ifsum :: "iv list \<Rightarrow> iv" where
  "ifsum xs = foldl iadd izero xs"

definition ivmul :: "iv list \<Rightarrow> iv list \<Rightarrow> iv list" where
  "ivmul xs ys = map2 imul xs ys"

definition idot :: "iv list \<Rightarrow> iv list \<Rightarrow> iv" where
  "idot xs ys = ifsum (ivmul xs ys)"

fun ifw_rows :: "iv list list \<Rightarrow> iv list list \<Rightarrow> iv list list \<Rightarrow> nat list \<Rightarrow> iv list list" where
  "ifw_rows blk ib acc [] = acc"
| "ifw_rows blk ib acc (y # ys) =
     ifw_rows blk ib (acc @ [ivmul (ib ! y) (map (\<lambda>row. idot row (last acc)) blk)]) ys"

definition ialpha :: "iv list list \<Rightarrow> iv list list \<Rightarrow> nat list \<Rightarrow> iv list list" where
  "ialpha ia ib ys = ifw_rows (map butlast ia) ib [ivmul (map last ia) (ib ! hd ys)] (tl ys)"

fun ibw_rows :: "iv list list \<Rightarrow> iv list list \<Rightarrow> iv list list \<Rightarrow> nat list \<Rightarrow> iv list list" where
  "ibw_rows ia ib acc [] = acc"
| "ibw_rows ia ib acc (y # ys) =
     ibw_rows ia ib
       (map (\<lambda>i. ifsum (ivmul (ivmul (hd acc) (ib ! y)) (map (\<lambda>r. r ! i) ia))) [0..<length ia] # acc) ys"

definition ibeta :: "iv list list \<Rightarrow> iv list list \<Rightarrow> nat list \<Rightarrow> iv list list" where
  "ibeta ia ib ys = ibw_rows ia ib [replicate (length ia) ione] (rev (tl ys))"

definition igamma :: "iv list list \<Rightarrow> iv list list \<Rightarrow> nat list \<Rightarrow> iv list list \<Rightarrow> iv list list \<Rightarrow> iv list list list" where
  "igamma ia ib ys al be =
     map (\<lambda>t. map (\<lambda>i. map (\<lambda>j.
         idiv (imul (imul (imul (al ! t ! i) (ia ! j ! i)) (be ! (t + 1) ! j)) (ib ! (ys ! (t + 1)) ! j))
              (idot (al ! t) (be ! t)))
         [0..<length ia]) [0..<length ia]) [0..<length ys - 1]"

definition idelta :: "iv list list list \<Rightarrow> iv list list \<Rightarrow> iv list list" where
  "idelta g al = map (map ifsum) g @ [map (\<lambda>x. idiv x (ifsum (last al))) (last al)]"

definition iupdate :: "nat list \<Rightarrow> nat \<Rightarrow> nat \<Rightarrow> iv list list list \<Rightarrow> iv list list \<Rightarrow> iv list list \<times> iv list list" where
  "iupdate ys n k g d =
     (map (\<lambda>i. map (\<lambda>j. idiv (ifsum (map (\<lambda>gt. gt ! i ! j) g))
                                (ifsum (map (\<lambda>dt. dt ! i) (butlast d)))) [0..<n]
                @ [d ! 0 ! i]) [0..<n],
      map (\<lambda>v. map (\<lambda>i.
             idiv (ifsum (map (\<lambda>t. imul (d ! t ! i) (if ys ! t = v then ione else izero)) [0..<length ys]))
                  (ifsum (map (\<lambda>dt. dt ! i) d))) [0..<n]) [0..<k])"

definition ipost :: "nat list \<Rightarrow> nat \<Rightarrow> nat \<Rightarrow> iv list list list \<Rightarrow> iv list list \<Rightarrow> iv list list \<times> iv list list" where
  "ipost ys n k g al = iupdate ys n k g (idelta g al)"

definition iestep :: "nat list \<Rightarrow> iv list list \<Rightarrow> iv list list \<Rightarrow> iv list list \<Rightarrow> iv list list \<Rightarrow> iv list list \<times> iv list list" where
  "iestep ys ia ib al be = ipost ys (length ia) (length ib) (igamma ia ib ys al be) al"

definition iv_iter :: "nat list \<Rightarrow> iv list list \<times> iv list list \<Rightarrow> iv list list \<times> iv list list" where
  "iv_iter ys bx = iestep ys (fst bx) (snd bx) (ialpha (fst bx) (snd bx) ys) (ibeta (fst bx) (snd bx) ys)"

text \<open>A proper interval encloses a float when the float is a finite number inside it.\<close>

definition encl :: "iv \<Rightarrow> fl \<Rightarrow> bool" where
  "encl i x = (proper i \<longrightarrow> (\<exists>r. x = Fin r \<and> scaled (fst i) \<le> r \<and> r \<le> scaled (snd i)))"

text \<open>The observation indices of the scenario.\<close>

definition scen_idx :: "nat list" where
  "scen_idx = [0, 0, 1, 0]"

text \<open>
  A state of training on the scenario, described by a box \<open>bx\<close>: the model has two
  hidden states and two observation classes, the observation indices are 0, 0, 1, 0, the
  tables have one row per observation, the STOP row of the transition matrix is zero, and
  the box encloses the other rows of the transition matrix and the emission matrix.
\<close>

definition box_shaped :: "iv list list \<times> iv list list \<Rightarrow> bool" where
  "box_shaped bx =
     (length (fst bx) = 2 \<and> list_all (\<lambda>r. length r = 3) (fst bx) \<and>
      length (snd bx) = 2 \<and> list_all (\<lambda>r. length r = 2) (snd bx))"

definition scen_inv :: "iv list list \<times> iv list list \<Rightarrow> hmm \<Rightarrow> bool" where
  "scen_inv bx s =
     (box_shaped bx \<and>
      n_hidden_states s = 2 \<and> n_observation_classes s = 2 \<and> n_observations s = 4 \<and>
      observation_indices s = [0, 0, 1, 0] \<and>
      length (p_transition s) = 3 \<and> p_transition s ! 2 = [Fin 0, Fin 0, Fin 0] \<and>
      list_all2 (list_all2 encl) (fst bx) (butlast (p_transition s)) \<and>
      list_all2 (list_all2 encl) (snd bx) (p_emission s) \<and>
      length (forward s) = 4 \<and> length (backward s) = 4 \<and> length (backward s ! 3) = 2 \<and>
      length (gamma s) = 4)"

text \<open>
  The model of the concrete scenario, \<open>A = [[0.7, 0.3, 0.5], [0.3, 0.7, 0.5], [0, 0, 0]]\<close>
  and \<open>B = [[0.9, 0.2], [0.1, 0.8]]\<close>, the box of its entries, and the boxes that the
  interval iteration makes of it.
\<close>

definition scen_A :: "fl list list" where
  "scen_A = [[Fin (7/10), Fin (3/10), Fin (1/2)],
             [Fin (3/10), Fin (7/10), Fin (1/2)],
             [Fin 0, Fin 0, Fin 0]]"

definition scen_B :: "fl list list" where
  "scen_B = [[Fin (9/10), Fin (2/10)], [Fin (1/10), Fin (8/10)]]"

definition scen_hmm :: hmm where
  "scen_hmm = \<lparr>p_transition = scen_A, p_emission = scen_B,
      n_hidden_states = 2, n_observation_classes = 2,
      observations = [], n_observations = 0,
      observation_indices = [], observation_labels = [],
      forward = [], backward = [], gamma = [], delta = []\<rparr>"

definition box0 :: "iv list list \<times> iv list list" where
  "box0 = ([[(700000000000, 700000000000), (300000000000, 300000000000),
             (500000000000, 500000000000)],
            [(300000000000, 300000000000), (700000000000, 700000000000),
             (500000000000, 500000000000)]],
           [[(900000000000, 900000000000), (200000000000, 200000000000)],
            [(100000000000, 100000000000), (800000000000, 800000000000)]])"

definition box1 :: "iv list list \<times> iv list list" where
  "box1 =
     ([[(647458739032, 647458739177), (352541260854, 352541260937), (866247167933,
     866247168017)], [(539555102496, 539555102693), (460444897326, 460444897485),
     (133752832011, 133752832056)]], [[(894733852595, 894733852781), (450396249614,
     450396249786)], [(105266147293, 105266147334), (549603750219, 549603750386)]])"

definition box2 :: "iv list list \<times> iv list list" where
  "box2 =
     ([[(560433711691, 560433716288), (439566284171, 439566287850), (954024903310,
     954024907269)], [(507325737402, 507325741727), (492674258273, 492674262599),
     (45975094597, 45975094840)]], [[(904601257389, 904601264851), (469215817964,
     469215822112)], [(95398738481, 95398739282), (530784177690, 530784182239)]])"

definition box3 :: "iv list list \<times> iv list list" where
  "box3 =
     ([[(504675788105, 504675915429), (495324085591, 495324210875), (979402553135,
     979402676998)], [(506319917288, 506320045532), (493679955804, 493680081376),
     (20597383596, 20597386278)]], [[(927457352120, 927457586360), (455711244468,
     455711360375)], [(72542521609, 72542539914), (544288628557, 544288766605)]])"

definition box4 :: "iv list list \<times> iv list list" where
  "box4 =
     ([[(464597658815, 464601185537), (535398545210, 535402610452), (989979112273,
     989982870823)], [(524002549664, 524006528844), (475993652641, 475997268865),
     (10018989387, 10019027522)]], [[(951269662845, 951276884777), (429850437288,
     429853702903)], [(48726541277, 48726911120), (570145764784, 570150095046)]])"

definition box5 :: "iv list list \<times> iv list list" where
  "box5 =
     ([[(440067816007, 440168072949), (559818291232, 559945832785), (995054720710,
     995168064857)], [(552317441410, 552443275135), (447568661481, 447670634949),
     (4888330368, 4888887300)]], [[(970840544486, 971061725376), (398421560117,
     398512335930)], [(29045563014, 29052180101), (601464542024, 601601574908)]])"

section \<open>Basic facts\<close>

lemma ebind_simps [simp]: "ebind (Inr x) f = f x" "ebind (Inl e) f = Inl e"
  by (simp_all add: ebind_def)

lemma upt_2: "[0..<2] = [0, 1]"
  by (simp add: upt_rec)

lemma upt_3: "[0..<3] = [0, 1, 2]"
  by (simp add: upt_rec)

lemma upt_4: "[0..<4] = [0, 1, 2, 3]"
  by (simp add: upt_rec)

lemma init_dec: "init dec_A dec_B = Inr dec_hmm"
  by (simp add: init_def dec_A_def dec_B_def dec_hmm_def np_allclose_def col_sums_def
      ncols_def fsum_def upt_4 upt_3)

lemma init_ex: "init ex_A ex_B = Inr ex_hmm"
  by (simp add: init_def ex_A_def ex_B_def ex_hmm_def np_allclose_def col_sums_def
      ncols_def fsum_def upt_3 upt_2)

lemma length_col_sums: "length (col_sums m) = ncols m"
  by (simp add: col_sums_def)

lemmas step_defs = calc_forward_probabilities_def forward_first_def forward_step_def
  calc_backward_probabilities_def backward_last_def backward_step_def
  calc_gamma_def gamma_step_def calc_delta_def expectation_def
  update_p_transition_def update_p_emission_def maximization_def
  set_start_column_def set_real_block_def gamma_sum_def delta_sum_def dirac_row_def
  np_index_def np_set_def norm_index_def real_block_def start_column_def transpose_m_def
  ncols_def vmul_def dot_def mat_vec_def fsum_def inf_of_sign_def
  renumber_observations_def py_min_def Let_def

lemma py_min_nonempty: "obs \<noteq> [] \<Longrightarrow> py_min obs = Inr (Min (set obs))"
  by (cases obs) (simp_all add: py_min_def Min.set_eq_fold [symmetric])

lemma renumber_nonempty:
  "obs \<noteq> [] \<Longrightarrow> renumber_observations obs = Inr (map (\<lambda>x. x - Min (set obs)) obs)"
  by (simp add: renumber_observations_def py_min_nonempty)

lemma renumber_empty: "renumber_observations [] = Inl ValueError"
  by (simp add: renumber_observations_def py_min_def)

lemma distinct_count_shift:
  "length (remdups (map (\<lambda>x. x - m) obs)) = card (set (obs :: int list))"
proof -
  have "inj_on (\<lambda>x. x - m) (set obs)" by (simp add: inj_on_def)
  then show ?thesis by (simp add: length_remdups_card_conv card_image)
qed

lemma ebind_not_assert:
  "m \<noteq> Inl AssertionError \<Longrightarrow> (\<And>x. f x \<noteq> Inl AssertionError) \<Longrightarrow>
   ebind m f \<noteq> Inl AssertionError"
  by (cases m) (simp_all add: ebind_def)

lemma np_index_not_assert: "np_index xs i \<noteq> Inl AssertionError"
  by (simp add: np_index_def split: option.splits)

lemma np_set_not_assert: "np_set xs i v \<noteq> Inl AssertionError"
  by (simp add: np_set_def split: option.splits)

lemma np_argmax_not_assert: "np_argmax xs \<noteq> Inl AssertionError"
  by (simp add: np_argmax_def)

lemma for_loop_not_assert:
  "(\<And>t s. body t s \<noteq> Inl AssertionError) \<Longrightarrow> for_loop ts body s \<noteq> Inl AssertionError"
  by (induction ts arbitrary: s) (simp_all add: ebind_not_assert)

lemma viterbi_step_not_assert: "viterbi_step s idx t tabs \<noteq> Inl AssertionError"
  by (simp add: viterbi_step_def Let_def ebind_not_assert np_index_not_assert
      np_set_not_assert)

subsection \<open>The order of floats and \<open>np.argmax\<close>\<close>

lemma fless_trans: "fless a b \<Longrightarrow> fless b c \<Longrightarrow> fless a c"
  by (cases a; cases b; cases c) simp_all

lemma fless_le_trans: "a \<noteq> NaN \<Longrightarrow> b \<noteq> NaN \<Longrightarrow> \<not> fless b a \<Longrightarrow> fless b c \<Longrightarrow> fless a c"
  by (cases a; cases b; cases c) simp_all

lemma argmax_scan_spec:
  assumes "NaN \<notin> set ys" "b < i" "i \<le> length ys"
    and "\<forall>k<i. \<not> fless (ys ! b) (ys ! k)" "\<forall>k<b. fless (ys ! k) (ys ! b)"
  shows "argmax_scan (drop i ys) i b (ys ! b) < length ys \<and>
         (\<forall>k<length ys. \<not> fless (ys ! argmax_scan (drop i ys) i b (ys ! b)) (ys ! k)) \<and>
         (\<forall>k<argmax_scan (drop i ys) i b (ys ! b). fless (ys ! k) (ys ! argmax_scan (drop i ys) i b (ys ! b)))"
  using assms
proof (induction "length ys - i" arbitrary: i b)
  case 0
  then show ?case by simp
next
  case (Suc d)
  then have lt: "i < length ys" by simp
  have dr: "drop i ys = ys ! i # drop (Suc i) ys"
    using lt by (simp add: Cons_nth_drop_Suc)
  have nn: "\<And>k. k < length ys \<Longrightarrow> ys ! k \<noteq> NaN"
    using Suc.prems(1) by (metis nth_mem)
  have bl: "b < length ys" using Suc.prems(2) lt by simp
  show ?case
  proof (cases "fless (ys ! b) (ys ! i)")
    case True
    have a1: "\<forall>k<Suc i. \<not> fless (ys ! i) (ys ! k)"
    proof (intro allI impI)
      fix k assume "k < Suc i"
      show "\<not> fless (ys ! i) (ys ! k)"
      proof (cases "k = i")
        case True
        then show ?thesis by (cases "ys ! i") simp_all
      next
        case False
        with \<open>k < Suc i\<close> have "k < i" by simp
        then have "\<not> fless (ys ! b) (ys ! k)" using Suc.prems(4) by simp
        then show ?thesis using True fless_trans by blast
      qed
    qed
    have a2: "\<forall>k<i. fless (ys ! k) (ys ! i)"
    proof (intro allI impI)
      fix k assume "k < i"
      then have "\<not> fless (ys ! b) (ys ! k)" using Suc.prems(4) by simp
      moreover have "ys ! k \<noteq> NaN" "ys ! b \<noteq> NaN" using nn \<open>k < i\<close> lt bl by simp_all
      ultimately show "fless (ys ! k) (ys ! i)" using True fless_le_trans by blast
    qed
    have "d = length ys - Suc i" using Suc.hyps(2) by simp
    from Suc.hyps(1) [OF this Suc.prems(1) _ _ a1 a2] lt
    show ?thesis using True nn[OF bl] by (simp add: dr)
  next
    case False
    have a1: "\<forall>k<Suc i. \<not> fless (ys ! b) (ys ! k)"
      using Suc.prems(4) False by (simp add: less_Suc_eq)
    have "d = length ys - Suc i" using Suc.hyps(2) by simp
    from Suc.hyps(1) [OF this Suc.prems(1) _ _ a1 Suc.prems(5)] lt Suc.prems(2)
    show ?thesis using False nn[OF lt] by (simp add: dr)
  qed
qed

lemma argmax_list_spec:
  assumes "ys \<noteq> []" "NaN \<notin> set ys"
  shows "argmax_list ys < length ys \<and>
         (\<forall>k<length ys. \<not> fless (ys ! argmax_list ys) (ys ! k)) \<and>
         (\<forall>k<argmax_list ys. fless (ys ! k) (ys ! argmax_list ys))"
proof -
  have irr: "\<not> fless (ys ! 0) (ys ! 0)" by (cases "ys ! 0") simp_all
  have e: "argmax_list ys = argmax_scan (drop 1 ys) 1 0 (ys ! 0)"
    using assms(1) by (simp add: argmax_list_def hd_conv_nth drop_Suc)
  have "1 \<le> length ys" using assms(1) by (cases ys) simp_all
  from argmax_scan_spec [OF assms(2) _ this, of 0] irr
  show ?thesis unfolding e by simp
qed


subsection \<open>Indexing, rows and shapes\<close>

lemma np_index_nat [simp]: "t < length xs \<Longrightarrow> np_index xs (int t) = Inr (xs ! t)"
  by (simp add: np_index_def norm_index_def)

lemma np_index_zero [simp]: "xs \<noteq> [] \<Longrightarrow> np_index xs 0 = Inr (xs ! 0)"
  by (simp add: np_index_def norm_index_def)

lemma np_index_last [simp]: "xs \<noteq> [] \<Longrightarrow> np_index xs (- 1) = Inr (xs ! (length xs - 1))"
  by (cases xs) (simp_all add: np_index_def norm_index_def)

lemma np_set_nat [simp]: "t < length xs \<Longrightarrow> np_set xs (int t) v = Inr (xs[t := v])"
  by (simp add: np_set_def norm_index_def)

lemma np_set_zero [simp]: "xs \<noteq> [] \<Longrightarrow> np_set xs 0 v = Inr (xs[0 := v])"
  by (simp add: np_set_def norm_index_def)

lemma np_set_last [simp]: "xs \<noteq> [] \<Longrightarrow> np_set xs (- 1) v = Inr (xs[length xs - 1 := v])"
  by (cases xs) (simp_all add: np_set_def norm_index_def)

lemma length_vmul: "length (vmul xs ys) = min (length xs) (length ys)"
  by (simp add: vmul_def)

lemma vmul_nth: "i < length xs \<Longrightarrow> i < length ys \<Longrightarrow> vmul xs ys ! i = fmul (xs ! i) (ys ! i)"
  by (simp add: vmul_def)

lemma shaped_transition_row:
  "shaped s \<Longrightarrow> i \<le> n_hidden_states s \<Longrightarrow> length (p_transition s ! i) = n_hidden_states s + 1"
  by (simp add: shaped_def list_all_length)

lemma shaped_emission_row:
  "shaped s \<Longrightarrow> y < n_observation_classes s \<Longrightarrow> length (p_emission s ! y) = n_hidden_states s"
  by (simp add: shaped_def list_all_length)

lemma length_start_column [simp]: "length (start_column a) = length a - 1"
  by (simp add: start_column_def)

lemma start_column_nth:
  "shaped s \<Longrightarrow> i < n_hidden_states s \<Longrightarrow>
   start_column (p_transition s) ! i = p_transition s ! i ! n_hidden_states s"
proof -
  assume sh: "shaped s" and i: "i < n_hidden_states s"
  have l: "length (p_transition s ! i) = n_hidden_states s + 1"
    using shaped_transition_row [of s i] sh i by simp
  then have "p_transition s ! i \<noteq> []" by auto
  then have "last (p_transition s ! i) = p_transition s ! i ! n_hidden_states s"
    using l by (simp add: last_conv_nth)
  then show ?thesis
    using sh i by (simp add: start_column_def shaped_def nth_butlast)
qed

lemma keeps_order_not_NaN: "keeps_order p q \<Longrightarrow> p \<noteq> NaN"
  by (cases p; cases q) simp_all

lemma rounding_safe_not_NaN: "rounding_safe ps \<Longrightarrow> NaN \<notin> set ps"
proof
  assume rs: "rounding_safe ps" and m: "NaN \<in> set ps"
  from rs m have "\<forall>q\<in>set ps. keeps_order NaN q"
    unfolding rounding_safe_def list_all_iff by blast
  with m have "keeps_order NaN NaN" by blast
  then show False by simp
qed

lemmas ex_defs = ex_state_def ex_hmm_def ex_A_def ex_B_def shaped_def tables_ok_def
  indices_ok_def upt_rec numeral_2_eq_2

subsection \<open>Loops and the rows they write\<close>

lemma for_loop_inv:
  assumes "I 0 s"
    and "\<And>k s. k < length ts \<Longrightarrow> I k s \<Longrightarrow> \<exists>s'. body (ts ! k) s = Inr s' \<and> I (Suc k) s'"
  shows "\<exists>s'. for_loop ts body s = Inr s' \<and> I (length ts) s'"
  using assms
proof (induction ts arbitrary: I s)
  case Nil
  then show ?case by simp
next
  case (Cons t ts)
  from Cons.prems(2) [of 0 s] Cons.prems(1)
  obtain s1 where s1: "body t s = Inr s1" "I (Suc 0) s1" by auto
  have "\<exists>s'. for_loop ts body s1 = Inr s' \<and> I (Suc (length ts)) s'"
  proof (rule Cons.IH [where I = "\<lambda>k. I (Suc k)"])
    show "I (Suc 0) s1" by (rule s1(2))
  next
    fix k s2
    assume "k < length ts" "I (Suc k) s2"
    then show "\<exists>s'. body (ts ! k) s2 = Inr s' \<and> I (Suc (Suc k)) s'"
      using Cons.prems(2) [of "Suc k" s2] by simp
  qed
  then show ?case using s1(1) by simp
qed

lemma vmul_index_form:
  assumes "length xs = n" "length ys = n"
  shows "vmul xs ys = map (\<lambda>j. fmul (xs ! j) (ys ! j)) [0..<n]"
  using assms by (intro nth_equalityI) (simp_all add: vmul_def)

lemma dot_index_form:
  assumes "length xs = n" "length ys = n"
  shows "dot xs ys = fsum (map (\<lambda>j. fmul (xs ! j) (ys ! j)) [0..<n])"
  by (simp add: dot_def vmul_index_form [OF assms])

lemma length_real_block [simp]: "length (real_block a) = length a - 1"
  by (simp add: real_block_def)

lemma real_block_row:
  "shaped s \<Longrightarrow> i < n_hidden_states s \<Longrightarrow>
   length (real_block (p_transition s) ! i) = n_hidden_states s"
  using shaped_transition_row [of s i]
  by (simp add: real_block_def shaped_def nth_butlast)

lemma real_block_nth:
  "shaped s \<Longrightarrow> i < n_hidden_states s \<Longrightarrow> j < n_hidden_states s \<Longrightarrow>
   real_block (p_transition s) ! i ! j = p_transition s ! i ! j"
  using shaped_transition_row [of s i]
  by (simp add: real_block_def shaped_def nth_butlast)

lemma indices_ok_nth:
  assumes "shaped s" "indices_ok s" "t < length (observation_indices s)"
  shows "np_index (p_emission s) (observation_indices s ! t) =
           Inr (p_emission s ! nat (observation_indices s ! t))"
    and "nat (observation_indices s ! t) < n_observation_classes s"
proof -
  have r: "0 \<le> observation_indices s ! t"
    "observation_indices s ! t < int (n_observation_classes s)"
    using assms(2,3) by (simp_all add: indices_ok_def list_all_length)
  then show "nat (observation_indices s ! t) < n_observation_classes s" by simp
  have "length (p_emission s) = n_observation_classes s"
    using assms(1) by (simp add: shaped_def)
  with r show "np_index (p_emission s) (observation_indices s ! t) =
           Inr (p_emission s ! nat (observation_indices s ! t))"
    by (simp add: np_index_def norm_index_def)
qed


lemma np_index_Suc [simp]:
  "Suc t < length xs \<Longrightarrow> np_index xs (1 + int t) = Inr (xs ! Suc t)"
  "Suc t < length xs \<Longrightarrow> np_index xs (int t + 1) = Inr (xs ! Suc t)"
  using np_index_nat [of "Suc t" xs] by (simp_all add: add.commute)

lemma np_set_Suc [simp]:
  "Suc t < length xs \<Longrightarrow> np_set xs (1 + int t) v = Inr (xs[Suc t := v])"
  "Suc t < length xs \<Longrightarrow> np_set xs (int t + 1) v = Inr (xs[Suc t := v])"
  using np_set_nat [of "Suc t" xs v] by (simp_all add: add.commute)

lemma mat_vec_nth: "i < length m \<Longrightarrow> mat_vec m v ! i = dot (m ! i) v"
  by (simp add: mat_vec_def)

lemma length_mat_vec [simp]: "length (mat_vec m v) = length m"
  by (simp add: mat_vec_def)

lemma forward_row_entry:
  assumes sh: "shaped s" and b: "length b = n_hidden_states s"
    and p: "length prev = n_hidden_states s" and i: "i < n_hidden_states s"
  shows "vmul b (mat_vec (real_block (p_transition s)) prev) ! i =
         fmul (b ! i) (fsum (map (\<lambda>j. fmul (p_transition s ! i ! j) (prev ! j))
                               [0..<n_hidden_states s]))"
proof -
  have lenA: "length (p_transition s) = n_hidden_states s + 1"
    using sh by (simp add: shaped_def)
  have "dot (real_block (p_transition s) ! i) prev =
        fsum (map (\<lambda>j. fmul (real_block (p_transition s) ! i ! j) (prev ! j))
                [0..<n_hidden_states s])"
    by (rule dot_index_form [OF real_block_row [OF sh i] p])
  also have "map (\<lambda>j. fmul (real_block (p_transition s) ! i ! j) (prev ! j))
                [0..<n_hidden_states s] =
             map (\<lambda>j. fmul (p_transition s ! i ! j) (prev ! j)) [0..<n_hidden_states s]"
    using real_block_nth [OF sh i] by simp
  finally show ?thesis
    using lenA b i by (simp add: vmul_nth mat_vec_nth)
qed

lemma np_index_pred [simp]:
  "0 < n \<Longrightarrow> n \<le> length xs \<Longrightarrow> np_index xs (int n - 1) = Inr (xs ! (n - 1))"
  using np_index_nat [of "n - 1" xs] by simp

lemma np_set_pred [simp]:
  "0 < n \<Longrightarrow> n \<le> length xs \<Longrightarrow> np_set xs (int n - 1) v = Inr (xs[n - 1 := v])"
  using np_set_nat [of "n - 1" xs v] by simp

lemma ncols_real_block:
  "shaped s \<Longrightarrow> ncols (real_block (p_transition s)) = n_hidden_states s"
proof -
  assume sh: "shaped s"
  show ?thesis
  proof (cases "n_hidden_states s = 0")
    case True
    then have "real_block (p_transition s) = []"
      using sh by (simp add: shaped_def real_block_def butlast_conv_take)
    then show ?thesis using True by (simp add: ncols_def)
  next
    case False
    then have l: "length (real_block (p_transition s)) \<noteq> 0"
      using sh by (simp add: shaped_def)
    then obtain r rs where e: "real_block (p_transition s) = r # rs"
      by (cases "real_block (p_transition s)") auto
    have "length (real_block (p_transition s) ! 0) = n_hidden_states s"
      using real_block_row [OF sh, of 0] False by simp
    then show ?thesis by (simp add: ncols_def e)
  qed
qed

lemma backward_row_entry:
  assumes sh: "shaped s" and b: "length b = n_hidden_states s"
    and p: "length nxt = n_hidden_states s" and i: "i < n_hidden_states s"
  shows "map (\<lambda>row. fsum (vmul (vmul nxt b) row))
           (transpose_m (real_block (p_transition s))) ! i =
         fsum (map (\<lambda>j. fmul (fmul (nxt ! j) (b ! j)) (p_transition s ! j ! i))
                 [0..<n_hidden_states s])"
proof -
  let ?N = "n_hidden_states s"
  let ?R = "real_block (p_transition s)"
  have lenR: "length ?R = ?N" using sh by (simp add: shaped_def)
  have col: "transpose_m ?R ! i = map (\<lambda>r. r ! i) ?R"
    using i by (simp add: transpose_m_def ncols_real_block [OF sh])
  have lcol: "length (map (\<lambda>r. r ! i) ?R) = ?N" using lenR by simp
  have lv: "length (vmul nxt b) = ?N" using b p by (simp add: length_vmul)
  have "vmul (vmul nxt b) (map (\<lambda>r. r ! i) ?R) =
        map (\<lambda>j. fmul (vmul nxt b ! j) (map (\<lambda>r. r ! i) ?R ! j)) [0..<?N]"
    by (rule vmul_index_form [OF lv lcol])
  also have "\<dots> = map (\<lambda>j. fmul (fmul (nxt ! j) (b ! j)) (p_transition s ! j ! i)) [0..<?N]"
    using b p lenR i by (simp add: vmul_nth real_block_nth [OF sh])
  finally show ?thesis
    using i col by (simp add: transpose_m_def ncols_real_block [OF sh])
qed

lemma length_backward_row:
  "shaped s \<Longrightarrow>
   length (map (\<lambda>row. fsum (vmul (vmul nxt b) row))
             (transpose_m (real_block (p_transition s)))) = n_hidden_states s"
  by (simp add: transpose_m_def ncols_real_block)

subsection \<open>Sums of finite rows and the results of the posterior steps\<close>

lemma foldl_fadd_Fin: "foldl fadd (Fin a) (map Fin rs) = Fin (a + sum_list rs)"
  by (induction rs arbitrary: a) (simp_all add: add.assoc)

lemma fsum_Fin: "fsum (map Fin rs) = Fin (sum_list rs)"
  by (simp add: fsum_def foldl_fadd_Fin)

lemma finite_list_reals: "list_all is_finite xs \<Longrightarrow> \<exists>rs. xs = map Fin rs"
proof (induction xs)
  case Nil
  then show ?case by simp
next
  case (Cons x xs)
  then obtain rs where "xs = map Fin rs" by auto
  moreover obtain r where "x = Fin r"
    using Cons.prems by (cases x) (simp_all add: is_finite_def)
  ultimately have "x # xs = map Fin (r # rs)" by simp
  then show ?case by (rule exI [where x = "r # rs"])
qed

lemma sum_list_divide_const: "sum_list (map (\<lambda>r. r / c) rs) = sum_list rs / (c :: real)"
  by (induction rs) (simp_all add: add_divide_distrib)

lemma normalized_row_sums_to_one:
  assumes "list_all is_finite a" "fsum a \<noteq> Fin 0"
  shows "fsum (map (\<lambda>x. fdiv x (fsum a)) a) = Fin 1"
proof -
  from assms(1) obtain rs where a: "a = map Fin rs"
    using finite_list_reals by blast
  have s: "fsum a = Fin (sum_list rs)" by (simp add: a fsum_Fin)
  with assms(2) have nz: "sum_list rs \<noteq> 0" by simp
  have "map (\<lambda>x. fdiv x (fsum a)) a = map Fin (map (\<lambda>r. r / sum_list rs) rs)"
    using nz by (simp add: a fsum_Fin)
  then have "fsum (map (\<lambda>x. fdiv x (fsum a)) a) =
             Fin (sum_list (map (\<lambda>r. r / sum_list rs) rs))"
    by (simp only: fsum_Fin)
  then show ?thesis
    using nz by (simp add: sum_list_divide_const)
qed

lemma tables_ok_rows:
  assumes "tables_ok s" "t < n_observations s"
  shows "length (forward s ! t) = n_hidden_states s"
    and "length (backward s ! t) = n_hidden_states s"
    and "length (delta s ! t) = n_hidden_states s"
    and "length (gamma s ! t) = n_hidden_states s"
  using assms by (simp_all add: tables_ok_def list_all_length)

lemma tables_ok_lengths:
  assumes "tables_ok s"
  shows "length (observation_indices s) = n_observations s"
    and "length (forward s) = n_observations s"
    and "length (backward s) = n_observations s"
    and "length (gamma s) = n_observations s"
    and "length (delta s) = n_observations s"
  using assms by (simp_all add: tables_ok_def)

text \<open>The slice that one step of \<open>calc_gamma\<close> writes.\<close>

lemma gamma_step_runs:
  assumes sh: "shaped s" and tb: "tables_ok s" and io: "indices_ok s"
    and t: "t + 1 < n_observations s" and lg: "length g = n_observations s"
  shows "gamma_step t (s\<lparr>gamma := g\<rparr>) =
         Inr (s\<lparr>gamma := g[t :=
           map (\<lambda>i. map (\<lambda>j.
               fdiv (fmul (fmul (fmul (forward s ! t ! i) (p_transition s ! j ! i))
                                (backward s ! (t + 1) ! j))
                          (p_emission s ! nat (observation_indices s ! (t + 1)) ! j))
                    (dot (forward s ! t) (backward s ! t)))
               [0..<n_hidden_states s]) [0..<n_hidden_states s]]\<rparr>)"
proof (cases "n_hidden_states s = 0")
  case True
  then show ?thesis using t lg by (simp add: gamma_step_def Let_def)
next
  case False
  have "np_index (p_emission s) (observation_indices s ! Suc t) =
        Inr (p_emission s ! nat (observation_indices s ! Suc t))"
    using indices_ok_nth(1) [OF sh io, of "Suc t"] t tables_ok_lengths(1) [OF tb] by simp
  then show ?thesis
    using False t lg tables_ok_lengths(1) [OF tb]
    by (simp add: gamma_step_def Let_def)
qed


lemma calc_gamma_result:
  assumes sh: "shaped s" and tb: "tables_ok s" and io: "indices_ok s"
  shows "\<exists>g. calc_gamma s = Inr (s\<lparr>gamma := g\<rparr>) \<and> length g = n_observations s \<and>
           (\<forall>t. t + 1 < n_observations s \<longrightarrow>
              g ! t = map (\<lambda>i. map (\<lambda>j.
                 fdiv (fmul (fmul (fmul (forward s ! t ! i) (p_transition s ! j ! i))
                                  (backward s ! (t + 1) ! j))
                            (p_emission s ! nat (observation_indices s ! (t + 1)) ! j))
                      (dot (forward s ! t) (backward s ! t)))
                 [0..<n_hidden_states s]) [0..<n_hidden_states s])"
proof -
  let ?T = "n_observations s"
  let ?G = "\<lambda>t. map (\<lambda>i. map (\<lambda>j.
                 fdiv (fmul (fmul (fmul (forward s ! t ! i) (p_transition s ! j ! i))
                                  (backward s ! (t + 1) ! j))
                            (p_emission s ! nat (observation_indices s ! (t + 1)) ! j))
                      (dot (forward s ! t) (backward s ! t)))
                 [0..<n_hidden_states s]) [0..<n_hidden_states s]"
  define I where "I k s' \<longleftrightarrow>
      (\<exists>g. s' = s\<lparr>gamma := g\<rparr> \<and> length g = ?T \<and> (\<forall>t<k. g ! t = ?G t))" for k s'
  have I0: "I 0 s"
    unfolding I_def using tables_ok_lengths(4) [OF tb]
    by (intro exI [where x = "gamma s"]) simp
  have step: "\<exists>s''. gamma_step ([0..<?T - 1] ! k) s' = Inr s'' \<and> I (Suc k) s''"
    if k: "k < length [0..<?T - 1]" and inv: "I k s'" for k s'
  proof -
    from inv obtain g where s': "s' = s\<lparr>gamma := g\<rparr>" and lg: "length g = ?T"
      and old: "\<forall>t<k. g ! t = ?G t"
      unfolding I_def by blast
    have kT: "k + 1 < ?T" using k by simp
    have tk: "[0..<?T - 1] ! k = k" using k by simp
    have run: "gamma_step k s' = Inr (s\<lparr>gamma := g[k := ?G k]\<rparr>)"
      unfolding s' by (rule gamma_step_runs [OF sh tb io kT lg])
    have "\<forall>t<Suc k. g[k := ?G k] ! t = ?G t"
      using old lg kT by (simp add: nth_list_update less_Suc_eq)
    then have "I (Suc k) (s\<lparr>gamma := g[k := ?G k]\<rparr>)"
      unfolding I_def using lg by (intro exI [where x = "g[k := ?G k]"]) simp
    then show ?thesis unfolding tk using run by blast
  qed
  have "\<exists>s''. for_loop [0..<?T - 1] gamma_step s = Inr s'' \<and> I (length [0..<?T - 1]) s''"
  proof (rule for_loop_inv [where I = I])
    show "I 0 s" by (rule I0)
  next
    fix k s'
    assume "k < length [0..<?T - 1]" "I k s'"
    then show "\<exists>s''. gamma_step ([0..<?T - 1] ! k) s' = Inr s'' \<and> I (Suc k) s''"
      by (rule step)
  qed
  then obtain g where "calc_gamma s = Inr (s\<lparr>gamma := g\<rparr>)" "length g = ?T"
    "\<forall>t<?T - 1. g ! t = ?G t"
    unfolding I_def calc_gamma_def by auto
  then show ?thesis
    by (intro exI [where x = g]) (simp add: less_diff_conv)
qed

lemma calc_delta_result:
  assumes lf: "length (forward s) = n_observations s" and lg: "length (gamma s) = n_observations s"
    and T: "0 < n_observations s"
  shows "calc_delta s =
         Inr (s\<lparr>delta := (map (map fsum) (gamma s))
                [n_observations s - 1 :=
                   map (\<lambda>x. fdiv x (fsum (forward s ! (n_observations s - 1))))
                       (forward s ! (n_observations s - 1))]\<rparr>)"
proof -
  have "forward s \<noteq> []" "map (map fsum) (gamma s) \<noteq> []"
    using lf lg T by auto
  then show ?thesis
    using lf lg by (simp add: calc_delta_def Let_def)
qed

subsection \<open>The transition update\<close>

lemma fdiv_zero_not_finite: "\<not> is_finite (fdiv x (Fin 0))"
  by (cases x) (simp_all add: is_finite_def inf_of_sign_def)

lemma set_start_column_rows:
  assumes "length a = n + 1" "length d = n"
  shows "length (set_start_column a d) = n + 1"
    and "i < n \<Longrightarrow> set_start_column a d ! i = butlast (a ! i) @ [d ! i]"
    and "set_start_column a d ! n = a ! n"
  using assms by (simp_all add: set_start_column_def nth_append nth_butlast)

lemma set_real_block_rows:
  assumes "length a = n + 1" "length r = n"
  shows "length (set_real_block a r) = n + 1"
    and "i < n \<Longrightarrow> set_real_block a r ! i = r ! i @ drop (length (a ! i) - 1) (a ! i)"
    and "set_real_block a r ! n = a ! n"
  using assms by (simp_all add: set_real_block_def nth_append nth_butlast)

lemma update_p_transition_result:
  assumes sh: "shaped s" and tb: "tables_ok s" and T: "0 < n_observations s"
  shows "\<exists>a. update_p_transition s = Inr (s\<lparr>p_transition := a\<rparr>) \<and>
           length a = n_hidden_states s + 1 \<and>
           (\<forall>i<n_hidden_states s.
              length (a ! i) = n_hidden_states s + 1 \<and>
              a ! i ! n_hidden_states s = delta s ! 0 ! i \<and>
              (\<forall>j<n_hidden_states s. a ! i ! j = fdiv (gamma_sum s i j) (delta_sum s i))) \<and>
           a ! n_hidden_states s = p_transition s ! n_hidden_states s"
proof -
  let ?N = "n_hidden_states s"
  let ?d0 = "delta s ! 0"
  let ?r = "map (\<lambda>i. map (\<lambda>j. fdiv (gamma_sum s i j) (delta_sum s i)) [0..<?N]) [0..<?N]"
  let ?a1 = "set_start_column (p_transition s) ?d0"
  let ?a = "set_real_block ?a1 ?r"
  have lenA: "length (p_transition s) = ?N + 1" using sh by (simp add: shaped_def)
  have ld: "delta s \<noteq> []" using tables_ok_lengths(5) [OF tb] T by auto
  have ld0: "length ?d0 = ?N" using tables_ok_rows(3) [OF tb T] .
  have run: "update_p_transition s = Inr (s\<lparr>p_transition := ?a\<rparr>)"
    using ld by (simp add: update_p_transition_def Let_def)
  have l1: "length ?a1 = ?N + 1" by (rule set_start_column_rows(1) [OF lenA ld0])
  have lr: "length ?r = ?N" by simp
  have la: "length ?a = ?N + 1" by (rule set_real_block_rows(1) [OF l1 lr])
  have rows: "length (?a ! i) = ?N + 1 \<and> ?a ! i ! ?N = ?d0 ! i \<and>
              (\<forall>j<?N. ?a ! i ! j = fdiv (gamma_sum s i j) (delta_sum s i))"
    if i: "i < ?N" for i
  proof -
    have li: "length (p_transition s ! i) = ?N + 1"
      using shaped_transition_row [OF sh, of i] i by simp
    have r1: "?a1 ! i = butlast (p_transition s ! i) @ [?d0 ! i]"
      by (rule set_start_column_rows(2) [OF lenA ld0 i])
    have "?a ! i = ?r ! i @ drop (length (?a1 ! i) - 1) (?a1 ! i)"
      by (rule set_real_block_rows(2) [OF l1 lr i])
    also have "\<dots> = ?r ! i @ [?d0 ! i]" using li by (simp add: r1)
    finally have e: "?a ! i = ?r ! i @ [?d0 ! i]" .
    show ?thesis using i by (simp add: e nth_append)
  qed
  have stop: "?a ! ?N = p_transition s ! ?N"
    using set_real_block_rows(3) [OF l1 lr] set_start_column_rows(3) [OF lenA ld0] by simp
  show ?thesis
    using run la rows stop by blast
qed

subsection \<open>Soundness of the interval operations\<close>

lemma scaled_mono: "a \<le> b \<Longrightarrow> scaled a \<le> scaled b"
  by (simp add: scaled_def scale_def divide_right_mono)

lemma scaled_nonneg: "0 \<le> a \<Longrightarrow> 0 \<le> scaled a"
  by (simp add: scaled_def scale_def)

lemma scaled_pos: "0 < a \<Longrightarrow> 0 < scaled a"
  by (simp add: scaled_def scale_def)

lemma div_le_real: "0 < b \<Longrightarrow> real_of_int (a div b) \<le> real_of_int a / real_of_int b"
  by (metis floor_divide_of_int_eq of_int_floor_le)

lemma div_ge_real: "0 < b \<Longrightarrow> real_of_int a / real_of_int b \<le> real_of_int (a div b + 1)"
proof -
  assume "0 < b"
  have "real_of_int a / real_of_int b < real_of_int \<lfloor>real_of_int a / real_of_int b\<rfloor> + 1"
    by linarith
  then show ?thesis by (simp add: floor_divide_of_int_eq)
qed

lemma encl_izero: "encl izero (Fin 0)"
  by (simp add: encl_def izero_def scaled_def)

lemma encl_ione: "encl ione (Fin 1)"
  by (simp add: encl_def ione_def scaled_def scale_def)

lemma encl_iadd:
  assumes "encl i x" "encl j y"
  shows "encl (iadd i j) (fadd x y)"
proof (cases i; cases j)
  fix l1 h1 l2 h2 assume i: "i = (l1, h1)" and j: "j = (l2, h2)"
  show ?thesis
  proof (cases "0 \<le> l1 \<and> l1 \<le> h1 \<and> 0 \<le> l2 \<and> l2 \<le> h2")
    case True
    then obtain r1 r2 where x: "x = Fin r1" "scaled l1 \<le> r1" "r1 \<le> scaled h1"
      and y: "y = Fin r2" "scaled l2 \<le> r2" "r2 \<le> scaled h2"
      using assms by (auto simp add: encl_def i j)
    have "scaled (l1 + l2) = scaled l1 + scaled l2" "scaled (h1 + h2) = scaled h1 + scaled h2"
      by (simp_all add: scaled_def add_divide_distrib)
    then show ?thesis using True x y by (simp add: encl_def i j)
  next
    case False
    then show ?thesis by (auto simp add: encl_def i j)
  qed
qed

lemma encl_imul:
  assumes "encl i x" "encl j y"
  shows "encl (imul i j) (fmul x y)"
proof (cases i; cases j)
  fix l1 h1 l2 h2 assume i: "i = (l1, h1)" and j: "j = (l2, h2)"
  show ?thesis
  proof (cases "0 \<le> l1 \<and> l1 \<le> h1 \<and> 0 \<le> l2 \<and> l2 \<le> h2")
    case True
    then obtain r1 r2 where x: "x = Fin r1" "scaled l1 \<le> r1" "r1 \<le> scaled h1"
      and y: "y = Fin r2" "scaled l2 \<le> r2" "r2 \<le> scaled h2"
      using assms by (auto simp add: encl_def i j)
    have nn: "0 \<le> scaled l1" "0 \<le> scaled l2" using True by (simp_all add: scaled_nonneg)
    have lo: "scaled l1 * scaled l2 \<le> r1 * r2"
      using nn x y by (intro mult_mono) simp_all
    have hi: "r1 * r2 \<le> scaled h1 * scaled h2"
      using nn x y by (intro mult_mono) simp_all
    have e1: "scaled (l1 * l2 div 1000000000000) \<le> scaled l1 * scaled l2"
      using div_le_real [of 1000000000000 "l1 * l2"]
      by (simp add: scaled_def scale_def field_simps)
    have e2: "scaled h1 * scaled h2 \<le> scaled (h1 * h2 div 1000000000000 + 1)"
      using div_ge_real [of 1000000000000 "h1 * h2"]
      by (simp add: scaled_def scale_def field_simps)
    show ?thesis using True x y lo hi e1 e2 by (simp add: encl_def i j)
  next
    case False
    then show ?thesis by (auto simp add: encl_def i j)
  qed
qed

lemma encl_idiv:
  assumes "encl i x" "encl j y"
  shows "encl (idiv i j) (fdiv x y)"
proof (cases i; cases j)
  fix l1 h1 l2 h2 assume i: "i = (l1, h1)" and j: "j = (l2, h2)"
  show ?thesis
  proof (cases "0 \<le> l1 \<and> l1 \<le> h1 \<and> 0 < l2 \<and> l2 \<le> h2")
    case True
    then obtain r1 r2 where x: "x = Fin r1" "scaled l1 \<le> r1" "r1 \<le> scaled h1"
      and y: "y = Fin r2" "scaled l2 \<le> r2" "r2 \<le> scaled h2"
      using assms by (auto simp add: encl_def i j)
    have p: "0 \<le> scaled l1" "0 < scaled l2" "0 < scaled h2"
      using True by (simp_all add: scaled_nonneg scaled_pos)
    have r2: "0 < r2" using p y by linarith
    have r1: "0 \<le> r1" using p x by linarith
    have lo: "scaled l1 / scaled h2 \<le> r1 / r2"
      using p r2 r1 x y by (intro frac_le) simp_all
    have hi: "r1 / r2 \<le> scaled h1 / scaled l2"
      using p r2 r1 x y by (intro frac_le) simp_all
    have h2: "0 < h2" using True by simp
    have e1: "scaled (l1 * 1000000000000 div h2) \<le> scaled l1 / scaled h2"
      using div_le_real [OF h2, of "l1 * 1000000000000"] h2
      by (simp add: scaled_def scale_def field_simps)
    have l2: "0 < l2" using True by simp
    have e2: "scaled h1 / scaled l2 \<le> scaled (h1 * 1000000000000 div l2 + 1)"
      using div_ge_real [OF l2, of "h1 * 1000000000000"] l2
      by (simp add: scaled_def scale_def field_simps)
    show ?thesis using True x y lo hi e1 e2 r2 by (simp add: encl_def i j)
  next
    case False
    then show ?thesis by (auto simp add: encl_def i j)
  qed
qed


subsection \<open>Soundness of the interval iteration on the scenario\<close>

lemmas iv_list_defs = iestep_def ipost_def iupdate_def idelta_def igamma_def
  ialpha_def ibeta_def idot_def ivmul_def ifsum_def

lemmas encl_rules = encl_imul encl_iadd encl_idiv encl_izero encl_ione

lemma list_len4: "length xs = 4 \<Longrightarrow> \<exists>a b c d. xs = [a, b, c, d]"
  by (auto simp add: eval_nat_numeral length_Suc_conv)

lemma list_len2: "length xs = 2 \<Longrightarrow> \<exists>a b. xs = [a, b]"
  by (auto simp add: eval_nat_numeral length_Suc_conv)

lemma mat_rows2:
  assumes "list_all (\<lambda>r. length r = 2) m" "m = [r0, r1, r2, r3]"
  shows "\<exists>x00 x01 x10 x11 x20 x21 x30 x31.
           m = [[x00, x01], [x10, x11], [x20, x21], [x30, x31]]"
proof -
  have "length r0 = 2" "length r1 = 2" "length r2 = 2" "length r3 = 2"
    using assms by simp_all
  then obtain x00 x01 x10 x11 x20 x21 x30 x31 where
    "r0 = [x00, x01]" "r1 = [x10, x11]" "r2 = [x20, x21]" "r3 = [x30, x31]"
    using list_len2 by metis
  then show ?thesis using assms(2) by blast
qed

lemma mat42:
  assumes "length m = 4" "list_all (\<lambda>r. length r = 2) m"
  shows "\<exists>x00 x01 x10 x11 x20 x21 x30 x31.
           m = [[x00, x01], [x10, x11], [x20, x21], [x30, x31]]"
proof -
  from assms(1) obtain r0 r1 r2 r3 where "m = [r0, r1, r2, r3]"
    using list_len4 by blast
  then show ?thesis using mat_rows2 [OF assms(2)] by blast
qed

lemma stage_forward:
  assumes N: "n_hidden_states s = 2" and T: "n_observations s = 4"
    and idx: "observation_indices s = [0, 0, 1, 0]"
    and A: "p_transition s = [[a00, a01, a02], [a10, a11, a12], z]"
    and B: "p_emission s = [[b00, b01], [b10, b11]]"
    and lf: "length (forward s) = 4"
    and EA: "list_all2 (list_all2 encl) ia [[a00, a01, a02], [a10, a11, a12]]"
    and EB: "list_all2 (list_all2 encl) ib [[b00, b01], [b10, b11]]"
  shows "\<exists>\<alpha>. calc_forward_probabilities s = Inr (s\<lparr>forward := \<alpha>\<rparr>) \<and>
              length \<alpha> = 4 \<and> list_all (\<lambda>r. length r = 2) \<alpha> \<and>
              list_all2 (list_all2 encl) (ialpha ia ib scen_idx) \<alpha>"
proof -
  from lf obtain f0 f1 f2 f3 where f: "forward s = [f0, f1, f2, f3]"
    using list_len4 by blast
  from EA obtain i00 i01 i02 i10 i11 i12 where ia: "ia = [[i00, i01, i02], [i10, i11, i12]]"
    and ea: "encl i00 a00" "encl i01 a01" "encl i02 a02" "encl i10 a10" "encl i11 a11" "encl i12 a12"
    by (auto simp add: list_all2_Cons2)
  from EB obtain j00 j01 j10 j11 where ib: "ib = [[j00, j01], [j10, j11]]"
    and eb: "encl j00 b00" "encl j01 b01" "encl j10 b10" "encl j11 b11"
    by (auto simp add: list_all2_Cons2)
  show ?thesis
    apply (simp add: step_defs iv_list_defs scen_idx_def N T idx A B f ia ib upt_rec)
    apply (rule exI, rule conjI, rule refl)
    apply (simp, intro conjI encl_rules ea eb)
    done
qed

lemma stage_backward:
  assumes N: "n_hidden_states s = 2" and T: "n_observations s = 4"
    and idx: "observation_indices s = [0, 0, 1, 0]"
    and A: "p_transition s = [[a00, a01, a02], [a10, a11, a12], z]"
    and B: "p_emission s = [[b00, b01], [b10, b11]]"
    and lb: "length (backward s) = 4" "length (backward s ! 3) = 2"
    and EA: "list_all2 (list_all2 encl) ia [[a00, a01, a02], [a10, a11, a12]]"
    and EB: "list_all2 (list_all2 encl) ib [[b00, b01], [b10, b11]]"
  shows "\<exists>\<beta>. calc_backward_probabilities s = Inr (s\<lparr>backward := \<beta>\<rparr>) \<and>
              length \<beta> = 4 \<and> list_all (\<lambda>r. length r = 2) \<beta> \<and>
              list_all2 (list_all2 encl) (ibeta ia ib scen_idx) \<beta>"
proof -
  from lb(1) obtain w0 w1 w2 w3 where w: "backward s = [w0, w1, w2, w3]"
    using list_len4 by blast
  have w3: "length w3 = 2" using lb(2) w by simp
  from EA obtain i00 i01 i02 i10 i11 i12 where ia: "ia = [[i00, i01, i02], [i10, i11, i12]]"
    and ea: "encl i00 a00" "encl i01 a01" "encl i02 a02" "encl i10 a10" "encl i11 a11" "encl i12 a12"
    by (auto simp add: list_all2_Cons2)
  from EB obtain j00 j01 j10 j11 where ib: "ib = [[j00, j01], [j10, j11]]"
    and eb: "encl j00 b00" "encl j01 b01" "encl j10 b10" "encl j11 b11"
    by (auto simp add: list_all2_Cons2)
  show ?thesis
    apply (simp add: step_defs iv_list_defs scen_idx_def N T idx A B w w3 ia ib upt_rec numeral_2_eq_2)
    apply (rule exI, rule conjI, rule refl)
    apply (simp, intro conjI encl_rules ea eb)
    done
qed


lemma stage_gamma:
  assumes N: "n_hidden_states s = 2" and T: "n_observations s = 4"
    and idx: "observation_indices s = [0, 0, 1, 0]"
    and A: "p_transition s = [[a00, a01, a02], [a10, a11, a12], z]"
    and B: "p_emission s = [[b00, b01], [b10, b11]]"
    and lg: "length (gamma s) = 4"
    and sf: "length (forward s) = 4" "list_all (\<lambda>r. length r = 2) (forward s)"
    and sb: "length (backward s) = 4" "list_all (\<lambda>r. length r = 2) (backward s)"
    and EA: "list_all2 (list_all2 encl) ia [[a00, a01, a02], [a10, a11, a12]]"
    and EB: "list_all2 (list_all2 encl) ib [[b00, b01], [b10, b11]]"
    and EF: "list_all2 (list_all2 encl) ial (forward s)"
    and EW: "list_all2 (list_all2 encl) ibe (backward s)"
  shows "\<exists>\<gamma>. calc_gamma s = Inr (s\<lparr>gamma := \<gamma>\<rparr>) \<and> length \<gamma> = 4 \<and>
              list_all (\<lambda>m. length m = 2 \<and> list_all (\<lambda>r. length r = 2) m) (butlast \<gamma>) \<and>
              list_all2 (list_all2 (list_all2 encl)) (igamma ia ib scen_idx ial ibe)
                (butlast \<gamma>)"
proof -
  from lg obtain g0 g1 g2 g3 where g: "gamma s = [g0, g1, g2, g3]"
    using list_len4 by blast
  from mat42 [OF sf] obtain f00 f01 f10 f11 f20 f21 f30 f31 where
    f: "forward s = [[f00, f01], [f10, f11], [f20, f21], [f30, f31]]" by blast
  from mat42 [OF sb] obtain w00 w01 w10 w11 w20 w21 w30 w31 where
    w: "backward s = [[w00, w01], [w10, w11], [w20, w21], [w30, w31]]" by blast
  from EA obtain i00 i01 i02 i10 i11 i12 where ia: "ia = [[i00, i01, i02], [i10, i11, i12]]"
    and ea: "encl i00 a00" "encl i01 a01" "encl i02 a02" "encl i10 a10" "encl i11 a11" "encl i12 a12"
    by (auto simp add: list_all2_Cons2)
  from EB obtain j00 j01 j10 j11 where ib: "ib = [[j00, j01], [j10, j11]]"
    and eb: "encl j00 b00" "encl j01 b01" "encl j10 b10" "encl j11 b11"
    by (auto simp add: list_all2_Cons2)
  from EF obtain x00 x01 x10 x11 x20 x21 x30 x31 where
    ial: "ial = [[x00, x01], [x10, x11], [x20, x21], [x30, x31]]"
    and ef: "encl x00 f00" "encl x01 f01" "encl x10 f10" "encl x11 f11"
      "encl x20 f20" "encl x21 f21" "encl x30 f30" "encl x31 f31"
    unfolding f by (auto simp add: list_all2_Cons2)
  from EW obtain y00 y01 y10 y11 y20 y21 y30 y31 where
    ibe: "ibe = [[y00, y01], [y10, y11], [y20, y21], [y30, y31]]"
    and ew: "encl y00 w00" "encl y01 w01" "encl y10 w10" "encl y11 w11"
      "encl y20 w20" "encl y21 w21" "encl y30 w30" "encl y31 w31"
    unfolding w by (auto simp add: list_all2_Cons2)
  show ?thesis
    apply (simp add: step_defs iv_list_defs scen_idx_def N T idx A B g f w ia ib ial ibe upt_rec
        numeral_2_eq_2 numeral_3_eq_3)
    apply (rule exI, rule conjI, rule refl)
    apply (simp, intro conjI encl_rules ea eb ef ew)
    done
qed

lemma encl_foldl:
  "list_all2 encl xs ys \<Longrightarrow> encl i x \<Longrightarrow> encl (foldl iadd i xs) (foldl fadd x ys)"
  by (induction xs ys arbitrary: i x rule: list_all2_induct) (simp_all add: encl_iadd)

lemma encl_fsum: "list_all2 encl xs ys \<Longrightarrow> encl (ifsum xs) (fsum ys)"
  by (simp add: ifsum_def fsum_def encl_foldl encl_izero)

lemma encl_fsum_rows:
  "list_all2 (list_all2 encl) h g \<Longrightarrow> list_all2 encl (map ifsum h) (map fsum g)"
  by (induction h g rule: list_all2_induct) (simp_all add: encl_fsum)

lemma mat22: "length m = 2 \<Longrightarrow> list_all (\<lambda>r. length r = 2) m \<Longrightarrow>
    \<exists>x00 x01 x10 x11. m = [[x00, x01], [x10, x11]]"
proof -
  assume l: "length m = 2" and r: "list_all (\<lambda>r. length r = 2) m"
  from l obtain r0 r1 where m: "m = [r0, r1]" using list_len2 by blast
  then have "length r0 = 2" "length r1 = 2" using r by simp_all
  then obtain x00 x01 x10 x11 where "r0 = [x00, x01]" "r1 = [x10, x11]"
    using list_len2 by metis
  then show ?thesis using m by blast
qed

lemma stage_delta:
  assumes T: "n_observations s = 4"
    and sf: "length (forward s) = 4" "list_all (\<lambda>r. length r = 2) (forward s)"
    and lg: "length (gamma s) = 4"
    and sg: "list_all (\<lambda>m. length m = 2 \<and> list_all (\<lambda>r. length r = 2) m) (butlast (gamma s))"
    and EF: "list_all2 (list_all2 encl) ial (forward s)"
    and EG: "list_all2 (list_all2 (list_all2 encl)) ig (butlast (gamma s))"
  shows "\<exists>\<delta>. calc_delta s = Inr (s\<lparr>delta := \<delta>\<rparr>) \<and> length \<delta> = 4 \<and>
              list_all (\<lambda>r. length r = 2) \<delta> \<and>
              list_all2 (list_all2 encl) (idelta ig ial) \<delta>"
proof -
  from lg obtain g0 g1 g2 g3 where g: "gamma s = [g0, g1, g2, g3]"
    using list_len4 by blast
  have gl: "length g0 = 2" "length g1 = 2" "length g2 = 2" using sg g by simp_all
  from mat42 [OF sf] obtain f00 f01 f10 f11 f20 f21 f30 f31 where
    f: "forward s = [[f00, f01], [f10, f11], [f20, f21], [f30, f31]]" by blast
  from EF obtain x0 x1 x2 x30 x31 where
    ial: "ial = [x0, x1, x2, [x30, x31]]" and ef: "encl x30 f30" "encl x31 f31"
    unfolding f by (auto simp add: list_all2_Cons2)
  from EG obtain h0 h1 h2 where ig: "ig = [h0, h1, h2]"
    and eg: "list_all2 (list_all2 encl) h0 g0" "list_all2 (list_all2 encl) h1 g1"
      "list_all2 (list_all2 encl) h2 g2"
    unfolding g by (auto simp add: list_all2_Cons2)
  show ?thesis
    apply (simp add: calc_delta_def Let_def T g f ial ig idelta_def)
    apply (rule exI, rule conjI, rule refl)
    apply (simp add: encl_fsum_rows eg gl)
    apply (simp add: ifsum_def fsum_def)
    apply (intro conjI encl_rules ef)
    done
qed

lemma stage_update:
  assumes N: "n_hidden_states s = 2" and K: "n_observation_classes s = 2"
    and T: "n_observations s = 4"
    and idx: "observation_indices s = [0, 0, 1, 0]"
    and A: "p_transition s = [[a00, a01, a02], [a10, a11, a12], z]"
    and lg: "length (gamma s) = 4"
    and sg: "list_all (\<lambda>m. length m = 2 \<and> list_all (\<lambda>r. length r = 2) m) (butlast (gamma s))"
    and sd: "length (delta s) = 4" "list_all (\<lambda>r. length r = 2) (delta s)"
    and EG: "list_all2 (list_all2 (list_all2 encl)) ig (butlast (gamma s))"
    and ED: "list_all2 (list_all2 encl) idl (delta s)"
  shows "\<exists>a' b'. maximization s = Inr (s\<lparr>p_transition := a', p_emission := b'\<rparr>) \<and>
           length a' = 3 \<and> a' ! 2 = z \<and>
           list_all2 (list_all2 encl) (fst (iupdate scen_idx 2 2 ig idl)) (butlast a') \<and>
           list_all2 (list_all2 encl) (snd (iupdate scen_idx 2 2 ig idl)) b'"
proof -
  from lg obtain g0 g1 g2 g3 where g: "gamma s = [g0, g1, g2, g3]"
    using list_len4 by blast
  have "length g0 = 2 \<and> list_all (\<lambda>r. length r = 2) g0"
    "length g1 = 2 \<and> list_all (\<lambda>r. length r = 2) g1"
    "length g2 = 2 \<and> list_all (\<lambda>r. length r = 2) g2"
    using sg g by simp_all
  then obtain p00 p01 p10 p11 q00 q01 q10 q11 r00 r01 r10 r11 where
    gs: "g0 = [[p00, p01], [p10, p11]]" "g1 = [[q00, q01], [q10, q11]]"
      "g2 = [[r00, r01], [r10, r11]]"
    using mat22 by metis
  from mat42 [OF sd] obtain d00 d01 d10 d11 d20 d21 d30 d31 where
    d: "delta s = [[d00, d01], [d10, d11], [d20, d21], [d30, d31]]" by blast
  from EG obtain u00 u01 u10 u11 v00 v01 v10 v11 w00 w01 w10 w11 where
    ig: "ig = [[[u00, u01], [u10, u11]], [[v00, v01], [v10, v11]], [[w00, w01], [w10, w11]]]"
    and eg: "encl u00 p00" "encl u01 p01" "encl u10 p10" "encl u11 p11"
      "encl v00 q00" "encl v01 q01" "encl v10 q10" "encl v11 q11"
      "encl w00 r00" "encl w01 r01" "encl w10 r10" "encl w11 r11"
    unfolding g gs by (auto simp add: list_all2_Cons2)
  from ED obtain e00 e01 e10 e11 e20 e21 e30 e31 where
    idl: "idl = [[e00, e01], [e10, e11], [e20, e21], [e30, e31]]"
    and ed: "encl e00 d00" "encl e01 d01" "encl e10 d10" "encl e11 d11"
      "encl e20 d20" "encl e21 d21" "encl e30 d30" "encl e31 d31"
    unfolding d by (auto simp add: list_all2_Cons2)
  show ?thesis
    apply (simp add: step_defs iupdate_def ifsum_def scen_idx_def N K T idx A g gs d ig idl upt_rec
        numeral_2_eq_2 numeral_3_eq_3)
    apply (rule exI, rule exI, rule conjI, rule refl)
    apply (simp, intro conjI encl_rules eg ed)
    done
qed


lemma box_shape_forms:
  assumes "box_shaped bx"
  shows "\<exists>i00 i01 i02 i10 i11 i12 j00 j01 j10 j11.
           bx = ([[i00, i01, i02], [i10, i11, i12]], [[j00, j01], [j10, j11]])"
proof -
  obtain ia ib where bx: "bx = (ia, ib)" by (cases bx)
  have "length ia = 2" "list_all (\<lambda>r. length r = 3) ia"
    "length ib = 2" "list_all (\<lambda>r. length r = 2) ib"
    using assms by (simp_all add: box_shaped_def bx)
  then show ?thesis
    unfolding bx
    by (auto simp add: eval_nat_numeral length_Suc_conv)
qed

lemma iter_sound:
  assumes inv: "scen_inv bx s"
  shows "\<exists>s'. ebind (expectation s) maximization = Inr s' \<and>
              scen_inv (iv_iter scen_idx bx) s'"
proof -
  let ?ys = "scen_idx"
  from inv have shp: "box_shaped bx" by (simp add: scen_inv_def)
  from box_shape_forms [OF shp] obtain i00 i01 i02 i10 i11 i12 j00 j01 j10 j11 where
    bx: "bx = ([[i00, i01, i02], [i10, i11, i12]], [[j00, j01], [j10, j11]])" by blast
  let ?ia = "[[i00, i01, i02], [i10, i11, i12]]" and ?ib = "[[j00, j01], [j10, j11]]"
  have N: "n_hidden_states s = 2" and K: "n_observation_classes s = 2"
    and T: "n_observations s = 4" and idx: "observation_indices s = [0, 0, 1, 0]"
    and lA: "length (p_transition s) = 3" and stop: "p_transition s ! 2 = [Fin 0, Fin 0, Fin 0]"
    and EA0: "list_all2 (list_all2 encl) ?ia (butlast (p_transition s))"
    and EB0: "list_all2 (list_all2 encl) ?ib (p_emission s)"
    and lf: "length (forward s) = 4" and lb: "length (backward s) = 4"
      "length (backward s ! 3) = 2"
    and lg: "length (gamma s) = 4"
    using inv by (simp_all add: scen_inv_def bx)
  from lA obtain r0 r1 r2 where rows: "p_transition s = [r0, r1, r2]"
    by (auto simp add: eval_nat_numeral length_Suc_conv)
  from EA0 obtain a00 a01 a02 a10 a11 a12 where
    "r0 = [a00, a01, a02]" "r1 = [a10, a11, a12]"
    unfolding rows by (auto simp add: list_all2_Cons1)
  with rows stop have A: "p_transition s = [[a00, a01, a02], [a10, a11, a12], [Fin 0, Fin 0, Fin 0]]"
    by simp
  have EA: "list_all2 (list_all2 encl) ?ia [[a00, a01, a02], [a10, a11, a12]]"
    using EA0 by (simp add: A)
  from EB0 obtain b00 b01 b10 b11 where B: "p_emission s = [[b00, b01], [b10, b11]]"
    by (auto simp add: list_all2_Cons1)
  have EB: "list_all2 (list_all2 encl) ?ib [[b00, b01], [b10, b11]]"
    using EB0 by (simp add: B)
  have els: "encl i00 a00" "encl i01 a01" "encl i02 a02" "encl i10 a10" "encl i11 a11"
    "encl i12 a12" "encl j00 b00" "encl j01 b01" "encl j10 b10" "encl j11 b11"
    using EA EB by simp_all
  \<comment> \<open>the forward pass\<close>
  from stage_forward [OF N T idx A B lf EA EB]
  obtain \<alpha> where fw: "calc_forward_probabilities s = Inr (s\<lparr>forward := \<alpha>\<rparr>)"
    and sa: "length \<alpha> = 4" "list_all (\<lambda>r. length r = 2) \<alpha>"
    and ea: "list_all2 (list_all2 encl) (ialpha ?ia ?ib ?ys) \<alpha>" by blast
  let ?s1 = "s\<lparr>forward := \<alpha>\<rparr>"
  \<comment> \<open>the backward pass\<close>
  have "\<exists>\<beta>. calc_backward_probabilities ?s1 = Inr (?s1\<lparr>backward := \<beta>\<rparr>) \<and>
              length \<beta> = 4 \<and> list_all (\<lambda>r. length r = 2) \<beta> \<and>
              list_all2 (list_all2 encl) (ibeta ?ia ?ib ?ys) \<beta>"
    by (rule stage_backward [where ?a00.0 = a00 and ?a01.0 = a01 and ?a02.0 = a02
          and ?a10.0 = a10 and ?a11.0 = a11 and ?a12.0 = a12 and z = "[Fin 0, Fin 0, Fin 0]"
          and ?b00.0 = b00 and ?b01.0 = b01 and ?b10.0 = b10 and ?b11.0 = b11])
      (simp_all add: N T idx A B lb els)
  then obtain \<beta> where bw: "calc_backward_probabilities ?s1 = Inr (?s1\<lparr>backward := \<beta>\<rparr>)"
    and sb: "length \<beta> = 4" "list_all (\<lambda>r. length r = 2) \<beta>"
    and eb: "list_all2 (list_all2 encl) (ibeta ?ia ?ib ?ys) \<beta>" by blast
  let ?s2 = "?s1\<lparr>backward := \<beta>\<rparr>"
  \<comment> \<open>the posteriors\<close>
  have "\<exists>\<gamma>. calc_gamma ?s2 = Inr (?s2\<lparr>gamma := \<gamma>\<rparr>) \<and> length \<gamma> = 4 \<and>
              list_all (\<lambda>m. length m = 2 \<and> list_all (\<lambda>r. length r = 2) m) (butlast \<gamma>) \<and>
              list_all2 (list_all2 (list_all2 encl))
                (igamma ?ia ?ib ?ys (ialpha ?ia ?ib ?ys) (ibeta ?ia ?ib ?ys)) (butlast \<gamma>)"
    by (rule stage_gamma [where ?a00.0 = a00 and ?a01.0 = a01 and ?a02.0 = a02
          and ?a10.0 = a10 and ?a11.0 = a11 and ?a12.0 = a12 and z = "[Fin 0, Fin 0, Fin 0]"
          and ?b00.0 = b00 and ?b01.0 = b01 and ?b10.0 = b10 and ?b11.0 = b11])
      (simp_all add: N T idx A B lg sa sb els ea eb)
  then obtain \<gamma> where gm: "calc_gamma ?s2 = Inr (?s2\<lparr>gamma := \<gamma>\<rparr>)"
    and sg: "length \<gamma> = 4"
      "list_all (\<lambda>m. length m = 2 \<and> list_all (\<lambda>r. length r = 2) m) (butlast \<gamma>)"
    and eg: "list_all2 (list_all2 (list_all2 encl))
                (igamma ?ia ?ib ?ys (ialpha ?ia ?ib ?ys) (ibeta ?ia ?ib ?ys)) (butlast \<gamma>)"
    by blast
  let ?ig = "igamma ?ia ?ib ?ys (ialpha ?ia ?ib ?ys) (ibeta ?ia ?ib ?ys)"
  let ?s3 = "?s2\<lparr>gamma := \<gamma>\<rparr>"
  have "\<exists>\<delta>. calc_delta ?s3 = Inr (?s3\<lparr>delta := \<delta>\<rparr>) \<and> length \<delta> = 4 \<and>
              list_all (\<lambda>r. length r = 2) \<delta> \<and>
              list_all2 (list_all2 encl) (idelta ?ig (ialpha ?ia ?ib ?ys)) \<delta>"
    by (rule stage_delta) (simp_all add: T sa sg eg ea)
  then obtain \<delta> where dl: "calc_delta ?s3 = Inr (?s3\<lparr>delta := \<delta>\<rparr>)"
    and sd: "length \<delta> = 4" "list_all (\<lambda>r. length r = 2) \<delta>"
    and ed: "list_all2 (list_all2 encl) (idelta ?ig (ialpha ?ia ?ib ?ys)) \<delta>" by blast
  let ?idl = "idelta ?ig (ialpha ?ia ?ib ?ys)"
  let ?s4 = "?s3\<lparr>delta := \<delta>\<rparr>"
  have ex: "expectation s = Inr ?s4"
    by (simp add: expectation_def fw bw gm dl)
  \<comment> \<open>the maximization step\<close>
  have "\<exists>a' b'. maximization ?s4 = Inr (?s4\<lparr>p_transition := a', p_emission := b'\<rparr>) \<and>
           length a' = 3 \<and> a' ! 2 = [Fin 0, Fin 0, Fin 0] \<and>
           list_all2 (list_all2 encl) (fst (iupdate ?ys 2 2 ?ig ?idl)) (butlast a') \<and>
           list_all2 (list_all2 encl) (snd (iupdate ?ys 2 2 ?ig ?idl)) b'"
    by (rule stage_update [where ?a00.0 = a00 and ?a01.0 = a01 and ?a02.0 = a02
          and ?a10.0 = a10 and ?a11.0 = a11 and ?a12.0 = a12])
      (simp_all add: N K T idx A sg sd eg ed)
  then obtain a' b' where
    mx: "maximization ?s4 = Inr (?s4\<lparr>p_transition := a', p_emission := b'\<rparr>)"
    and la': "length a' = 3" "a' ! 2 = [Fin 0, Fin 0, Fin 0]"
    and ea': "list_all2 (list_all2 encl) (fst (iupdate ?ys 2 2 ?ig ?idl)) (butlast a')"
    and eb': "list_all2 (list_all2 encl) (snd (iupdate ?ys 2 2 ?ig ?idl)) b'"
    by blast
  let ?s5 = "?s4\<lparr>p_transition := a', p_emission := b'\<rparr>"
  have it: "iv_iter ?ys bx = iupdate ?ys 2 2 ?ig ?idl"
    by (simp add: iv_iter_def iestep_def ipost_def bx numeral_2_eq_2)
  have shp': "box_shaped (iupdate ?ys 2 2 ?ig ?idl)"
    by (simp add: box_shaped_def iupdate_def upt_rec numeral_2_eq_2 scen_idx_def)
  have b3: "length (\<beta> ! 3) = 2"
    using sb by (simp add: list_all_length)
  have "scen_inv (iv_iter ?ys bx) ?s5"
    unfolding it scen_inv_def
    using shp' N K T idx la' ea' eb' sa sb sg b3
    by simp
  moreover have "ebind (expectation s) maximization = Inr ?s5"
    by (simp add: ex mx)
  ultimately show ?thesis by blast
qed


subsection \<open>The boxes of the five iterations\<close>

lemmas iv_eval_defs = iv_iter_def iestep_def ipost_def iupdate_def idelta_def igamma_def
  ialpha_def ibeta_def idot_def ivmul_def ifsum_def ione_def izero_def scen_idx_def upt_rec

lemma box_step_1: "iv_iter scen_idx box0 = box1"
  by (simp add: iv_eval_defs box0_def box1_def)

lemma box_step_2: "iv_iter scen_idx box1 = box2"
  by (simp add: iv_eval_defs box1_def box2_def)

lemma box_step_3: "iv_iter scen_idx box2 = box3"
  by (simp add: iv_eval_defs box2_def box3_def)

lemma box_step_4: "iv_iter scen_idx box3 = box4"
  by (simp add: iv_eval_defs box3_def box4_def)

lemma box_step_5: "iv_iter scen_idx box4 = box5"
  by (simp add: iv_eval_defs box4_def box5_def)

lemma init_scen: "init scen_A scen_B = Inr scen_hmm"
  by (simp add: init_def scen_A_def scen_B_def scen_hmm_def np_allclose_def col_sums_def
      ncols_def fsum_def upt_3 upt_2)

lemma encl_FinI: "scaled l \<le> r \<Longrightarrow> r \<le> scaled h \<Longrightarrow> encl (l, h) (Fin r)"
  unfolding encl_def by auto

section \<open>Construction and shapes\<close>

text \<open>
  Claim C8, as the code has it. The constructor has no check of the shapes and no
  ShapeError. An emission matrix with \<open>M\<close> columns against \<open>N\<close> hidden states makes the
  first assertion compare \<open>M\<close> column sums with \<open>N\<close> ones: when \<open>M\<close> differs from \<open>N\<close>
  and neither is 1 the comparison cannot broadcast and the constructor ends in numpy's
  ValueError.
\<close>

theorem init_shape_mismatch:
  assumes "pe \<noteq> []" "ncols pe \<noteq> length pt - 1" "ncols pe \<noteq> 1" "length pt \<noteq> 2"
  shows "init pt pe = Inl ValueError"
proof (cases "pt = []")
  case True
  then show ?thesis by (simp add: init_def)
next
  case False
  have "np_allclose (col_sums pe) (replicate (length pt - 1) (Fin 1)) = Inl ValueError"
    using assms False by (cases pt) (auto simp add: np_allclose_def length_col_sums)
  then show ?thesis using False by (simp add: init_def Let_def)
qed

theorem init_shape_mismatch_witness:
  "[[Fin 1, Fin 0, Fin 0]] \<noteq> [] \<and> ncols [[Fin 1, Fin 0, Fin 0]] \<noteq> length ex_A - 1 \<and>
   ncols [[Fin 1, Fin 0, Fin 0]] \<noteq> 1 \<and> length ex_A \<noteq> 2 \<and>
   init ex_A [[Fin 1, Fin 0, Fin 0]] = Inl ValueError"
  using init_shape_mismatch [of "[[Fin 1, Fin 0, Fin 0]]" ex_A]
  by (simp add: ncols_def ex_A_def)

text \<open>
  Claim C8 as stated fails: a 3 x 3 transition matrix gives two hidden states, the 1 x 1
  emission matrix has one column, and the constructor returns a model.
\<close>

theorem init_broadcast_counterexample:
  "ncols [[Fin 1]] \<noteq> length ex_A - 1 \<and>
   init ex_A [[Fin 1]] = Inr (ex_hmm\<lparr>p_emission := [[Fin 1]], n_observation_classes := 1\<rparr>)"
  by (simp add: init_def ex_A_def ex_hmm_def np_allclose_def col_sums_def ncols_def
      fsum_def upt_3)

section \<open>The check of the observation classes\<close>

text \<open>
  Claim C10, as the code has it. For a nonempty observation sequence the decoder ends in
  the failed assertion exactly when the sequence has more distinct values than the model
  has observation classes: the asserted expression is the comparison, and no later step
  of the decoder fails with an assertion.
\<close>

theorem viterbi_check_exact:
  assumes "obs \<noteq> []"
  shows "viterbi s obs = Inl AssertionError \<longleftrightarrow> n_observation_classes s < card (set obs)"
proof (cases "n_observation_classes s < card (set obs)")
  case True
  then show ?thesis using assms
    by (simp add: viterbi_def renumber_nonempty distinct_count_shift)
next
  case False
  have "viterbi s obs \<noteq> Inl AssertionError"
    using False assms
    unfolding viterbi_def Let_def
    apply (simp add: renumber_nonempty distinct_count_shift)
    apply (intro ebind_not_assert np_index_not_assert np_set_not_assert
        np_argmax_not_assert for_loop_not_assert viterbi_step_not_assert)
    apply simp
    done
  with False show ?thesis by simp
qed

theorem viterbi_check_exact_witness:
  "[0, 1, 2] \<noteq> ([] :: int list) \<and>
   (viterbi ex_hmm [0, 1, 2] = Inl AssertionError \<longleftrightarrow>
    n_observation_classes ex_hmm < card (set [0, 1, 2 :: int]))"
  using viterbi_check_exact [of "[0, 1, 2]" ex_hmm] by simp

text \<open>
  Claim C10 as stated fails: the sequence 0, 1, 2 has three distinct values, the model has
  two observation classes, and the decoder ends in the failed assertion, not in an
  IndexError of the emission matrix.
\<close>

theorem viterbi_check_fails_counterexample:
  "[0, 1, 2] \<noteq> ([] :: int list) \<and>
   n_observation_classes ex_hmm < length (remdups [0, 1, 2 :: int]) \<and>
   viterbi ex_hmm [0, 1, 2] = Inl AssertionError"
  by (simp add: viterbi_def renumber_observations_def py_min_def ex_hmm_def)

text \<open>
  Claim C6, as the code has it. What both entry points check is the number of distinct
  values: a sequence with more distinct values than the model has observation classes ends
  training, for every number of iterations, and decoding in the failed assertion, which
  comes before the tables are allocated.
\<close>

theorem distinct_values_rejected:
  assumes "n_observation_classes s < card (set obs)"
  shows "train s obs n = Inl AssertionError \<and> viterbi s obs = Inl AssertionError"
proof -
  have ne: "obs \<noteq> []" using assms by auto
  have "train s obs n = Inl AssertionError"
    using assms ne by (simp add: train_def renumber_nonempty length_remdups_card_conv)
  moreover have "viterbi s obs = Inl AssertionError"
    using assms ne by (simp add: viterbi_def renumber_nonempty distinct_count_shift)
  ultimately show ?thesis by simp
qed

theorem distinct_values_rejected_witness:
  "n_observation_classes ex_hmm < card (set [0, 1, 2 :: int]) \<and>
   train ex_hmm [0, 1, 2] 3 = Inl AssertionError \<and>
   viterbi ex_hmm [0, 1, 2] = Inl AssertionError"
  using distinct_values_rejected [of ex_hmm "[0, 1, 2]" 3] by (simp add: ex_hmm_def)

text \<open>
  Claim C6 as stated fails: the sequence 0, 5 has the index range 0..5, beyond the two
  observation classes, but only two distinct values. Training with no iteration returns
  normally; with one iteration it fails while the forward table is computed, reading
  row 5 of the emission matrix; decoding fails in the same way while its score table is
  computed.
\<close>

theorem index_range_unchecked_counterexample:
  "renumber_observations [0, 5] = Inr [0, 5] \<and>
   int (n_observation_classes ex_hmm) - 1 < 5 \<and>
   \<not> isl (train ex_hmm [0, 5] 0) \<and>
   train ex_hmm [0, 5] 1 = Inl IndexError \<and>
   viterbi ex_hmm [0, 5] = Inl IndexError"
  by (simp add: train_def viterbi_def viterbi_step_def np_argmax_def argmax_list_def
      step_defs ex_hmm_def ex_A_def ex_B_def upt_rec numeral_2_eq_2)

section \<open>Decoding\<close>

text \<open>
  Claim C9, as the code has it. The decoder passes its observations through the indexer,
  which subtracts the minimum: a sequence of one observation \<open>x\<close> has the index 0
  whatever \<open>x\<close> is, and the decoder reads row 0 of the emission matrix. For a model of the
  documented shape with at least one hidden state and at least one observation class,
  whose products \<open>pi_i * B[0,i]\<close> keep their order under rounding, the decoder returns
  a path of one state \<open>r\<close>. The state \<open>r\<close> maximizes the product of the START column
  entry and the emission entry \<open>B[0,i]\<close> over the hidden states, and every state below
  \<open>r\<close> has a strictly smaller product: ties go to the lowest state.
\<close>

theorem viterbi_single_observation:
  assumes "shaped s" "0 < n_hidden_states s" "0 < n_observation_classes s"
    and "rounding_safe (first_scores s)"
  shows "\<exists>r. renumber_observations [x] = Inr [0] \<and> viterbi s [x] = Inr [r] \<and>
           r < n_hidden_states s \<and>
           (\<forall>i<n_hidden_states s.
              \<not> fless (fmul (p_transition s ! r ! n_hidden_states s) (p_emission s ! 0 ! r))
                      (fmul (p_transition s ! i ! n_hidden_states s) (p_emission s ! 0 ! i))) \<and>
           (\<forall>i<r.
              fless (fmul (p_transition s ! i ! n_hidden_states s) (p_emission s ! 0 ! i))
                    (fmul (p_transition s ! r ! n_hidden_states s) (p_emission s ! 0 ! r)))"
proof -
  let ?n = "n_hidden_states s"
  let ?sc = "vmul (start_column (p_transition s)) (p_emission s ! 0)"
  have lenA: "length (p_transition s) = ?n + 1" and lenB: "length (p_emission s) = n_observation_classes s"
    using assms(1) by (simp_all add: shaped_def)
  have lenB0: "length (p_emission s ! 0) = ?n"
    using shaped_emission_row [OF assms(1) assms(3)] .
  have len: "length ?sc = ?n" using lenA lenB0 by (simp add: length_vmul)
  have nth: "\<And>i. i < ?n \<Longrightarrow> ?sc ! i = fmul (p_transition s ! i ! ?n) (p_emission s ! 0 ! i)"
    using lenA lenB0 by (simp add: vmul_nth start_column_nth [OF assms(1)])
  have "?sc = first_scores s"
    using len nth by (simp add: first_scores_def list_eq_iff_nth_eq)
  then have nonan: "NaN \<notin> set ?sc"
    using rounding_safe_not_NaN [OF assms(4)] by simp
  have ne: "?sc \<noteq> []" using len assms(2) by (cases ?sc) simp_all
  have ren: "renumber_observations [x] = Inr [0]"
    by (simp add: renumber_observations_def py_min_def)
  have Bne: "p_emission s \<noteq> []" using lenB assms(3) by auto
  have vit: "viterbi s [x] = Inr [argmax_list ?sc]"
    using assms(3) Bne ne
    by (simp add: viterbi_def ren Let_def np_argmax_def)
  define r where "r = argmax_list ?sc"
  have r1: "r < ?n" and r2: "\<forall>k<?n. \<not> fless (?sc ! r) (?sc ! k)"
    and r3: "\<forall>k<r. fless (?sc ! k) (?sc ! r)"
    using argmax_list_spec [OF ne nonan] len by (simp_all add: r_def)
  have c2: "\<forall>i<?n. \<not> fless (fmul (p_transition s ! r ! ?n) (p_emission s ! 0 ! r))
                           (fmul (p_transition s ! i ! ?n) (p_emission s ! 0 ! i))"
    using r2 r1 nth by simp
  have c3: "\<forall>i<r. fless (fmul (p_transition s ! i ! ?n) (p_emission s ! 0 ! i))
                       (fmul (p_transition s ! r ! ?n) (p_emission s ! 0 ! r))"
    using r3 r1 nth by simp
  show ?thesis
    using ren vit r1 c2 c3 by (simp add: r_def)
qed

theorem viterbi_single_observation_witness:
  "init dec_A dec_B = Inr dec_hmm \<and> shaped dec_hmm \<and> 0 < n_hidden_states dec_hmm \<and>
   0 < n_observation_classes dec_hmm \<and>
   first_scores dec_hmm = [Fin (1/8), Fin (3/16), Fin (3/16)] \<and>
   rounding_safe (first_scores dec_hmm) \<and> viterbi dec_hmm [1] = Inr [1]"
proof -
  have "shaped dec_hmm \<and> 0 < n_hidden_states dec_hmm \<and>
   0 < n_observation_classes dec_hmm \<and>
   first_scores dec_hmm = [Fin (1/8), Fin (3/16), Fin (3/16)] \<and>
   rounding_safe (first_scores dec_hmm) \<and> viterbi dec_hmm [1] = Inr [1]"
    using viterbi_single_observation [of dec_hmm 1]
    by (simp add: shaped_def first_scores_def rounding_safe_def dec_hmm_def dec_A_def
        dec_B_def viterbi_def np_argmax_def argmax_list_def step_defs upt_3)
  with init_dec show ?thesis by blast
qed

text \<open>
  Claim C9 as stated fails. On the model \<open>ex_hmm\<close>, which the constructor accepts, the
  sequence of the one observation 1 is decoded to state 0, the state that maximizes
  \<open>pi_i * B[0,i]\<close>. The products \<open>pi_i * B[1,i]\<close> with the row of the observation itself
  are \<open>1/4\<close> and \<open>3/8\<close>, and their argmax is state 1.
\<close>

theorem viterbi_emission_row_counterexample:
  "init ex_A ex_B = Inr ex_hmm \<and> viterbi ex_hmm [1] = Inr [0] \<and>
   vmul (start_column ex_A) (ex_B ! 1) = [Fin (1/4), Fin (3/8)] \<and>
   fless (Fin (1/4)) (Fin (3/8)) \<and>
   argmax_list (vmul (start_column ex_A) (ex_B ! 1)) = 1"
proof -
  have "viterbi ex_hmm [1] = Inr [0] \<and>
   vmul (start_column ex_A) (ex_B ! 1) = [Fin (1/4), Fin (3/8)] \<and>
   fless (Fin (1/4)) (Fin (3/8)) \<and>
   argmax_list (vmul (start_column ex_A) (ex_B ! 1)) = 1"
    by (simp add: viterbi_def np_argmax_def argmax_list_def step_defs ex_hmm_def
        ex_A_def ex_B_def)
  with init_ex show ?thesis by blast
qed

section \<open>The forward and backward passes\<close>

text \<open>
  Claim C3, as the code has it. For a model of the documented shape and a sequence of
  \<open>T \<ge> 1\<close> observations whose indices address rows of the emission matrix, the
  forward pass returns normally and changes the forward table only. Row 0 of the table is
  \<open>alpha[0,i] = A[i,N] * B[y_0,i]\<close>, with \<open>A[i,N]\<close> the START column; row \<open>t \<ge> 1\<close> is
  \<open>alpha[t,i] = B[y_t,i] * (sum over j < N of A[i,j] * alpha[t-1,j])\<close>: the sum runs
  along row \<open>i\<close> of the real-state block, whose entry in column \<open>j\<close> is the transition
  from state \<open>j\<close> to state \<open>i\<close>.
\<close>

theorem forward_recursion:
  assumes sh: "shaped s" and T: "0 < n_observations s"
    and li: "length (observation_indices s) = n_observations s"
    and io: "indices_ok s"
    and lf: "length (forward s) = n_observations s"
  shows "\<exists>\<alpha>. calc_forward_probabilities s = Inr (s\<lparr>forward := \<alpha>\<rparr>) \<and>
           length \<alpha> = n_observations s \<and>
           (\<forall>i<n_hidden_states s.
              \<alpha> ! 0 ! i = fmul (p_transition s ! i ! n_hidden_states s)
                                (p_emission s ! nat (observation_indices s ! 0) ! i)) \<and>
           (\<forall>t. 1 \<le> t \<and> t < n_observations s \<longrightarrow>
              (\<forall>i<n_hidden_states s.
                 \<alpha> ! t ! i =
                   fmul (p_emission s ! nat (observation_indices s ! t) ! i)
                        (fsum (map (\<lambda>j. fmul (p_transition s ! i ! j) (\<alpha> ! (t - 1) ! j))
                                 [0..<n_hidden_states s]))))"
proof -
  let ?N = "n_hidden_states s" and ?T = "n_observations s"
  let ?A = "p_transition s" and ?B = "p_emission s"
  let ?y = "\<lambda>t. nat (observation_indices s ! t)"
  define P where "P k f \<longleftrightarrow>
      length f = ?T \<and> (\<forall>t\<le>k. length (f ! t) = ?N) \<and>
      (\<forall>i<?N. f ! 0 ! i = fmul (?A ! i ! ?N) (?B ! ?y 0 ! i)) \<and>
      (\<forall>t. 1 \<le> t \<and> t \<le> k \<longrightarrow>
         (\<forall>i<?N. f ! t ! i =
            fmul (?B ! ?y t ! i)
                 (fsum (map (\<lambda>j. fmul (?A ! i ! j) (f ! (t - 1) ! j)) [0..<?N]))))"
    for k f
  define I where "I k s' \<longleftrightarrow> (\<exists>f. s' = s\<lparr>forward := f\<rparr> \<and> P k f)" for k s'
  have lenA: "length ?A = ?N + 1" using sh by (simp add: shaped_def)
  have brow: "\<And>t. t < ?T \<Longrightarrow> length (?B ! ?y t) = ?N"
    using indices_ok_nth(2) [OF sh io] li shaped_emission_row [OF sh] by simp
  have bidx: "\<And>t. t < ?T \<Longrightarrow>
      np_index ?B (observation_indices s ! t) = Inr (?B ! ?y t)"
    using indices_ok_nth(1) [OF sh io] li by simp
  \<comment> \<open>the first row\<close>
  let ?f0 = "(forward s)[0 := vmul (start_column ?A) (?B ! ?y 0)]"
  have ne: "observation_indices s \<noteq> []" "forward s \<noteq> []"
    using T li lf by auto
  have first: "forward_first s = Inr (s\<lparr>forward := ?f0\<rparr>)"
    using ne bidx [OF T] by (simp add: forward_first_def)
  have len0: "length (vmul (start_column ?A) (?B ! ?y 0)) = ?N"
    using lenA brow [OF T] by (simp add: length_vmul)
  have P0: "P 0 ?f0"
    unfolding P_def using lf T len0 lenA brow [OF T]
    by (simp add: vmul_nth start_column_nth [OF sh])
  have I0: "I 0 (s\<lparr>forward := ?f0\<rparr>)"
    unfolding I_def using P0 by blast
  \<comment> \<open>the loop\<close>
  have step: "\<exists>s''. forward_step ([1..<?T] ! k) s' = Inr s'' \<and> I (Suc k) s''"
    if k: "k < length [1..<?T]" and inv: "I k s'" for k s'
  proof -
    from inv obtain f where s': "s' = s\<lparr>forward := f\<rparr>" and Pf: "P k f"
      unfolding I_def by blast
    have kT: "Suc k < ?T" using k by simp
    have tk: "[1..<?T] ! k = Suc k" using k by simp
    have lenf: "length f = ?T" using Pf by (simp add: P_def)
    have rowk: "length (f ! k) = ?N" using Pf by (simp add: P_def)
    let ?row = "vmul (?B ! ?y (Suc k)) (mat_vec (real_block ?A) (f ! k))"
    let ?f' = "f[Suc k := ?row]"
    have run: "forward_step (Suc k) s' = Inr (s\<lparr>forward := ?f'\<rparr>)"
      using kT li lenf bidx [OF kT]
      by (simp add: forward_step_def s')
    have lenrow: "length ?row = ?N"
      using lenA brow [OF kT] by (simp add: length_vmul)
    have entry: "\<And>i. i < ?N \<Longrightarrow> ?row ! i =
        fmul (?B ! ?y (Suc k) ! i)
             (fsum (map (\<lambda>j. fmul (?A ! i ! j) (f ! k ! j)) [0..<?N]))"
      by (rule forward_row_entry [OF sh brow [OF kT] rowk])
    have "P (Suc k) ?f'"
      unfolding P_def
    proof (intro conjI allI impI)
      show "length ?f' = ?T" using lenf by simp
    next
      fix t assume "t \<le> Suc k"
      then show "length (?f' ! t) = ?N"
        using Pf lenf kT lenrow by (cases "t = Suc k") (simp_all add: P_def)
    next
      fix i assume "i < ?N"
      then show "?f' ! 0 ! i = fmul (?A ! i ! ?N) (?B ! ?y 0 ! i)"
        using Pf by (simp add: P_def)
    next
      fix t i assume t: "1 \<le> t \<and> t \<le> Suc k" and i: "i < ?N"
      show "?f' ! t ! i =
            fmul (?B ! ?y t ! i)
                 (fsum (map (\<lambda>j. fmul (?A ! i ! j) (?f' ! (t - 1) ! j)) [0..<?N]))"
      proof (cases "t = Suc k")
        case True
        then show ?thesis using entry [OF i] lenf kT by simp
      next
        case False
        with t have tk': "t \<le> k" "1 \<le> t" by simp_all
        then have "t - 1 \<noteq> Suc k" "t \<noteq> Suc k" by simp_all
        then show ?thesis using Pf tk' i by (simp add: P_def)
      qed
    qed
    then show ?thesis unfolding I_def tk using run by blast
  qed
  have "\<exists>s''. for_loop [1..<?T] forward_step (s\<lparr>forward := ?f0\<rparr>) = Inr s'' \<and>
          I (length [1..<?T]) s''"
  proof (rule for_loop_inv [where I = I])
    show "I 0 (s\<lparr>forward := ?f0\<rparr>)" by (rule I0)
  next
    fix k s'
    assume "k < length [1..<?T]" "I k s'"
    then show "\<exists>s''. forward_step ([1..<?T] ! k) s' = Inr s'' \<and> I (Suc k) s''"
      by (rule step)
  qed
  then obtain s'' where fin: "for_loop [1..<?T] forward_step (s\<lparr>forward := ?f0\<rparr>) = Inr s''"
    and "I (length [1..<?T]) s''" by blast
  then obtain \<alpha> where a: "s'' = s\<lparr>forward := \<alpha>\<rparr>" and Pa: "P (?T - 1) \<alpha>"
    unfolding I_def by auto
  have "calc_forward_probabilities s = Inr (s\<lparr>forward := \<alpha>\<rparr>)"
    using first fin a by (simp add: calc_forward_probabilities_def)
  moreover have "length \<alpha> = ?T" using Pa by (simp add: P_def)
  moreover have "\<forall>i<?N. \<alpha> ! 0 ! i = fmul (?A ! i ! ?N) (?B ! ?y 0 ! i)"
    using Pa by (simp add: P_def)
  moreover have "\<forall>t. 1 \<le> t \<and> t < ?T \<longrightarrow>
         (\<forall>i<?N. \<alpha> ! t ! i =
            fmul (?B ! ?y t ! i)
                 (fsum (map (\<lambda>j. fmul (?A ! i ! j) (\<alpha> ! (t - 1) ! j)) [0..<?N])))"
    using Pa by (auto simp add: P_def)
  ultimately show ?thesis by blast
qed


theorem forward_recursion_witness:
  "shaped ex_state \<and> 0 < n_observations ex_state \<and>
   length (observation_indices ex_state) = n_observations ex_state \<and>
   indices_ok ex_state \<and> length (forward ex_state) = n_observations ex_state \<and>
   calc_forward_probabilities ex_state =
     Inr (ex_state\<lparr>forward := [[Fin (1/4), Fin (1/8)], [Fin (5/64), Fin (21/128)]]\<rparr>)"
  using forward_recursion [of ex_state]
  by (simp add: ex_defs step_defs)

text \<open>
  Claim C3 as stated fails. It sums \<open>A[j,i] * alpha[t-1,j]\<close>, down column \<open>i\<close> of the
  block. On the model above with the observations 0, 1 the forward pass gives
  \<open>alpha[0] = (1/4, 1/8)\<close> and \<open>alpha[1,0] = 5/64\<close>, while the stated formula gives
  \<open>B[1,0] * (A[0,0] * alpha[0,0] + A[1,0] * alpha[0,1]) = 3/32\<close>.
\<close>

theorem forward_column_sum_counterexample:
  "calc_forward_probabilities ex_state =
     Inr (ex_state\<lparr>forward := [[Fin (1/4), Fin (1/8)], [Fin (5/64), Fin (21/128)]]\<rparr>) \<and>
   fmul (p_emission ex_state ! 1 ! 0)
        (fsum [fmul (p_transition ex_state ! 0 ! 0) (Fin (1/4)),
               fmul (p_transition ex_state ! 1 ! 0) (Fin (1/8))]) = Fin (3/32) \<and>
   Fin (5/64) \<noteq> Fin (3/32)"
  by (simp add: ex_defs step_defs)

text \<open>
  Claim C4, as the code has it. For a model of the documented shape, tables of the shape
  that \<open>train\<close> allocates and a sequence of \<open>T \<ge> 1\<close> observations whose indices address
  rows of the emission matrix, the backward pass returns normally and changes the backward
  table only. Row \<open>T - 1\<close> of the table is 1 in every state; row \<open>t < T - 1\<close> is
  \<open>beta[t,i] = sum over j < N of (beta[t+1,j] * B[y_(t+1),j]) * A[j,i]\<close>: the sum runs
  down column \<open>i\<close> of the real-state block, whose entry in row \<open>j\<close> is the transition from
  state \<open>i\<close> to state \<open>j\<close>.
\<close>

theorem backward_recursion:
  assumes sh: "shaped s" and tb: "tables_ok s" and io: "indices_ok s"
    and T: "0 < n_observations s"
  shows "\<exists>\<beta>. calc_backward_probabilities s = Inr (s\<lparr>backward := \<beta>\<rparr>) \<and>
           length \<beta> = n_observations s \<and>
           (\<forall>i<n_hidden_states s. \<beta> ! (n_observations s - 1) ! i = Fin 1) \<and>
           (\<forall>t. t + 1 < n_observations s \<longrightarrow>
              (\<forall>i<n_hidden_states s.
                 \<beta> ! t ! i =
                   fsum (map (\<lambda>j. fmul (fmul (\<beta> ! (t + 1) ! j)
                                              (p_emission s ! nat (observation_indices s ! (t + 1)) ! j))
                                        (p_transition s ! j ! i))
                           [0..<n_hidden_states s])))"
proof -
  let ?N = "n_hidden_states s" and ?T = "n_observations s"
  let ?A = "p_transition s" and ?B = "p_emission s"
  let ?y = "\<lambda>t. nat (observation_indices s ! t)"
  let ?rhs = "\<lambda>f t i. fsum (map (\<lambda>j. fmul (fmul (f ! (t + 1) ! j) (?B ! ?y (t + 1) ! j))
                                          (?A ! j ! i)) [0..<?N])"
  define P where "P k f \<longleftrightarrow>
      length f = ?T \<and> (\<forall>t. ?T - 1 - k \<le> t \<and> t < ?T \<longrightarrow> length (f ! t) = ?N) \<and>
      (\<forall>i<?N. f ! (?T - 1) ! i = Fin 1) \<and>
      (\<forall>t. ?T - 1 - k \<le> t \<and> t + 1 < ?T \<longrightarrow> (\<forall>i<?N. f ! t ! i = ?rhs f t i))"
    for k f
  define I where "I k s' \<longleftrightarrow> (\<exists>f. s' = s\<lparr>backward := f\<rparr> \<and> P k f)" for k s'
  have li: "length (observation_indices s) = ?T" and lb: "length (backward s) = ?T"
    and lrow: "length (backward s ! (?T - 1)) = ?N"
    using tb T by (simp_all add: tables_ok_def list_all_length)
  have brow: "\<And>t. t < ?T \<Longrightarrow> length (?B ! ?y t) = ?N"
    using indices_ok_nth(2) [OF sh io] li shaped_emission_row [OF sh] by simp
  have bidx: "\<And>t. t < ?T \<Longrightarrow>
      np_index ?B (observation_indices s ! t) = Inr (?B ! ?y t)"
    using indices_ok_nth(1) [OF sh io] li by simp
  let ?f0 = "(backward s)[?T - 1 := replicate ?N (Fin 1)]"
  have first: "backward_last s = Inr (s\<lparr>backward := ?f0\<rparr>)"
    using T lb lrow by (simp add: backward_last_def)
  have P0: "P 0 ?f0"
    unfolding P_def using lb T by (auto simp add: nth_list_update)
  have I0: "I 0 (s\<lparr>backward := ?f0\<rparr>)"
    unfolding I_def using P0 by blast
  let ?ts = "rev [0..<?T - 1]"
  have step: "\<exists>s''. backward_step (?ts ! k) s' = Inr s'' \<and> I (Suc k) s''"
    if k: "k < length ?ts" and inv: "I k s'" for k s'
  proof -
    from inv obtain f where s': "s' = s\<lparr>backward := f\<rparr>" and Pf: "P k f"
      unfolding I_def by blast
    define t0 where "t0 = ?T - 2 - k"
    have kT: "k < ?T - 1" using k by simp
    have t0a: "Suc t0 = ?T - 1 - k" and t0b: "?T - 1 - Suc k = t0" and t0c: "Suc t0 < ?T"
      using kT by (simp_all add: t0_def)
    have tk: "?ts ! k = t0" using kT by (simp add: rev_nth t0_def)
    have lenf: "length f = ?T" using Pf by (simp add: P_def)
    have rownxt: "length (f ! Suc t0) = ?N"
      using Pf t0a t0c by (simp add: P_def)
    let ?row = "map (\<lambda>row. fsum (vmul (vmul (f ! Suc t0) (?B ! ?y (Suc t0))) row))
                  (transpose_m (real_block ?A))"
    let ?f' = "f[t0 := ?row]"
    have run: "backward_step t0 s' = Inr (s\<lparr>backward := ?f'\<rparr>)"
      using t0c li lenf bidx [OF t0c]
      by (simp add: backward_step_def s')
    have lenrow: "length ?row = ?N" by (rule length_backward_row [OF sh])
    have entry: "\<And>i. i < ?N \<Longrightarrow> ?row ! i =
        fsum (map (\<lambda>j. fmul (fmul (f ! Suc t0 ! j) (?B ! ?y (Suc t0) ! j)) (?A ! j ! i))
                [0..<?N])"
      by (rule backward_row_entry [OF sh brow [OF t0c] rownxt])
    have "P (Suc k) ?f'"
      unfolding P_def t0b
    proof (intro conjI allI impI)
      show "length ?f' = ?T" using lenf by simp
    next
      fix t assume t: "t0 \<le> t \<and> t < ?T"
      show "length (?f' ! t) = ?N"
      proof (cases "t = t0")
        case True
        then show ?thesis using lenf t lenrow by simp
      next
        case False
        with t have "?T - 1 - k \<le> t" using t0a by simp
        then show ?thesis using Pf t False by (simp add: P_def)
      qed
    next
      fix i assume "i < ?N"
      moreover have "?T - 1 \<noteq> t0" using t0c by simp
      ultimately show "?f' ! (?T - 1) ! i = Fin 1"
        using Pf by (simp add: P_def)
    next
      fix t i assume t: "t0 \<le> t \<and> t + 1 < ?T" and i: "i < ?N"
      show "?f' ! t ! i = ?rhs ?f' t i"
      proof (cases "t = t0")
        case True
        then show ?thesis using entry [OF i] lenf t0c by simp
      next
        case False
        with t have ge: "?T - 1 - k \<le> t" using t0a by simp
        have "t + 1 \<noteq> t0" "t \<noteq> t0" using t False by simp_all
        then show ?thesis using Pf ge t i by (simp add: P_def)
      qed
    qed
    then show ?thesis unfolding I_def tk using run by blast
  qed
  have "\<exists>s''. for_loop ?ts backward_step (s\<lparr>backward := ?f0\<rparr>) = Inr s'' \<and>
          I (length ?ts) s''"
  proof (rule for_loop_inv [where I = I])
    show "I 0 (s\<lparr>backward := ?f0\<rparr>)" by (rule I0)
  next
    fix k s'
    assume "k < length ?ts" "I k s'"
    then show "\<exists>s''. backward_step (?ts ! k) s' = Inr s'' \<and> I (Suc k) s''"
      by (rule step)
  qed
  then obtain s'' where fin: "for_loop ?ts backward_step (s\<lparr>backward := ?f0\<rparr>) = Inr s''"
    and "I (length ?ts) s''" by blast
  then obtain \<beta> where a: "s'' = s\<lparr>backward := \<beta>\<rparr>" and Pa: "P (?T - 1) \<beta>"
    unfolding I_def by auto
  have "calc_backward_probabilities s = Inr (s\<lparr>backward := \<beta>\<rparr>)"
    using first fin a by (simp add: calc_backward_probabilities_def)
  moreover have "length \<beta> = ?T" using Pa by (simp add: P_def)
  moreover have "\<forall>i<?N. \<beta> ! (?T - 1) ! i = Fin 1"
    using Pa by (simp add: P_def)
  moreover have "\<forall>t. t + 1 < ?T \<longrightarrow> (\<forall>i<?N. \<beta> ! t ! i = ?rhs \<beta> t i)"
    using Pa by (simp add: P_def)
  ultimately show ?thesis by blast
qed

theorem backward_recursion_witness:
  "shaped ex_state \<and> tables_ok ex_state \<and> indices_ok ex_state \<and>
   0 < n_observations ex_state \<and>
   calc_backward_probabilities ex_state =
     Inr (ex_state\<lparr>backward := [[Fin (5/8), Fin (11/16)], [Fin 1, Fin 1]]\<rparr>)"
  using backward_recursion [of ex_state]
  by (simp add: ex_defs step_defs)

text \<open>
  Claim C4 as stated fails. It sums \<open>beta[t+1,j] * A[i,j] * B[y_(t+1),j]\<close>, along row \<open>i\<close>
  of the block. On the model above with the observations 0, 1 the backward pass gives
  \<open>beta[1] = (1, 1)\<close> and \<open>beta[0,0] = 5/8\<close>, while the stated formula gives
  \<open>A[0,0] * B[1,0] + A[0,1] * B[1,1] = 7/16\<close>.
\<close>

theorem backward_row_sum_counterexample:
  "calc_backward_probabilities ex_state =
     Inr (ex_state\<lparr>backward := [[Fin (5/8), Fin (11/16)], [Fin 1, Fin 1]]\<rparr>) \<and>
   fsum [fmul (fmul (Fin 1) (p_transition ex_state ! 0 ! 0)) (p_emission ex_state ! 1 ! 0),
         fmul (fmul (Fin 1) (p_transition ex_state ! 0 ! 1)) (p_emission ex_state ! 1 ! 1)]
     = Fin (7/16) \<and>
   Fin (5/8) \<noteq> Fin (7/16)"
  by (simp add: ex_defs step_defs)

section \<open>The posteriors\<close>

text \<open>
  Claim C5, as the code has it. For a model of the documented shape, tables of the shape
  that \<open>train\<close> allocates and a sequence of \<open>T \<ge> 1\<close> observations whose indices address
  rows of the emission matrix, \<open>calc_gamma\<close> followed by \<open>calc_delta\<close> returns normally
  and changes the tables \<open>gamma\<close> and \<open>delta\<close> only. For \<open>t \<le> T - 2\<close>,
  \<open>gamma[t,i,j] = alpha[t,i] * A[j,i] * beta[t+1,j] * B[y_(t+1),j]\<close> divided by the sum
  over \<open>k\<close> of \<open>alpha[t,k] * beta[t,k]\<close>, and \<open>delta[t,i]\<close> is the sum over \<open>j\<close> of
  \<open>gamma[t,i,j]\<close>. The last row is \<open>delta[T-1,i] = alpha[T-1,i]\<close> divided by the sum of
  \<open>alpha[T-1,:]\<close>; when that row of \<open>alpha\<close> is finite and its sum is not zero, the last
  row of \<open>delta\<close> sums to 1.
\<close>

theorem posterior_tables:
  assumes sh: "shaped s" and tb: "tables_ok s" and io: "indices_ok s"
    and T: "0 < n_observations s"
  shows "\<exists>\<gamma> \<delta>. ebind (calc_gamma s) calc_delta = Inr (s\<lparr>gamma := \<gamma>, delta := \<delta>\<rparr>) \<and>
           (\<forall>t. t + 1 < n_observations s \<longrightarrow>
              (\<forall>i<n_hidden_states s. \<forall>j<n_hidden_states s.
                 \<gamma> ! t ! i ! j =
                   fdiv (fmul (fmul (fmul (forward s ! t ! i) (p_transition s ! j ! i))
                                    (backward s ! (t + 1) ! j))
                              (p_emission s ! nat (observation_indices s ! (t + 1)) ! j))
                        (fsum (map (\<lambda>k. fmul (forward s ! t ! k) (backward s ! t ! k))
                                 [0..<n_hidden_states s])))) \<and>
           (\<forall>t. t + 1 < n_observations s \<longrightarrow>
              (\<forall>i<n_hidden_states s.
                 \<delta> ! t ! i = fsum (map (\<lambda>j. \<gamma> ! t ! i ! j) [0..<n_hidden_states s]))) \<and>
           (\<forall>i<n_hidden_states s.
              \<delta> ! (n_observations s - 1) ! i =
                fdiv (forward s ! (n_observations s - 1) ! i)
                     (fsum (forward s ! (n_observations s - 1)))) \<and>
           (list_all is_finite (forward s ! (n_observations s - 1)) \<and>
            fsum (forward s ! (n_observations s - 1)) \<noteq> Fin 0 \<longrightarrow>
              fsum (\<delta> ! (n_observations s - 1)) = Fin 1)"
proof -
  let ?N = "n_hidden_states s" and ?T = "n_observations s"
  let ?a = "forward s ! (?T - 1)"
  from calc_gamma_result [OF sh tb io]
  obtain g where run: "calc_gamma s = Inr (s\<lparr>gamma := g\<rparr>)" and lg: "length g = ?T"
    and sl: "\<And>t. t + 1 < ?T \<Longrightarrow>
      g ! t = map (\<lambda>i. map (\<lambda>j.
                 fdiv (fmul (fmul (fmul (forward s ! t ! i) (p_transition s ! j ! i))
                                  (backward s ! (t + 1) ! j))
                            (p_emission s ! nat (observation_indices s ! (t + 1)) ! j))
                      (dot (forward s ! t) (backward s ! t)))
                 [0..<?N]) [0..<?N]"
    by blast
  let ?d = "(map (map fsum) g)[?T - 1 := map (\<lambda>x. fdiv x (fsum ?a)) ?a]"
  have lf: "length (forward s) = ?T" by (rule tables_ok_lengths(2) [OF tb])
  have "calc_delta (s\<lparr>gamma := g\<rparr>) = Inr (s\<lparr>gamma := g, delta := ?d\<rparr>)"
    using calc_delta_result [of "s\<lparr>gamma := g\<rparr>"] lf lg T by simp
  then have both: "ebind (calc_gamma s) calc_delta = Inr (s\<lparr>gamma := g, delta := ?d\<rparr>)"
    by (simp add: run)
  have la: "length ?a = ?N" using tables_ok_rows(1) [OF tb, of "?T - 1"] T by simp
  have c1: "\<forall>t. t + 1 < ?T \<longrightarrow> (\<forall>i<?N. \<forall>j<?N.
                 g ! t ! i ! j =
                   fdiv (fmul (fmul (fmul (forward s ! t ! i) (p_transition s ! j ! i))
                                    (backward s ! (t + 1) ! j))
                              (p_emission s ! nat (observation_indices s ! (t + 1)) ! j))
                        (fsum (map (\<lambda>k. fmul (forward s ! t ! k) (backward s ! t ! k))
                                 [0..<?N])))"
  proof (intro allI impI)
    fix t i j assume t: "t + 1 < ?T" and i: "i < ?N" and j: "j < ?N"
    have "dot (forward s ! t) (backward s ! t) =
          fsum (map (\<lambda>k. fmul (forward s ! t ! k) (backward s ! t ! k)) [0..<?N])"
      using t by (intro dot_index_form tables_ok_rows [OF tb]) simp_all
    then show "g ! t ! i ! j =
                   fdiv (fmul (fmul (fmul (forward s ! t ! i) (p_transition s ! j ! i))
                                    (backward s ! (t + 1) ! j))
                              (p_emission s ! nat (observation_indices s ! (t + 1)) ! j))
                        (fsum (map (\<lambda>k. fmul (forward s ! t ! k) (backward s ! t ! k))
                                 [0..<?N]))"
      using sl [OF t] i j by simp
  qed
  have c2: "\<forall>t. t + 1 < ?T \<longrightarrow>
              (\<forall>i<?N. ?d ! t ! i = fsum (map (\<lambda>j. g ! t ! i ! j) [0..<?N]))"
  proof (intro allI impI)
    fix t i assume t: "t + 1 < ?T" and i: "i < ?N"
    have "length (g ! t ! i) = ?N" using sl [OF t] i by simp
    then have "map (\<lambda>j. g ! t ! i ! j) [0..<?N] = g ! t ! i"
      using map_nth [of "g ! t ! i"] by simp
    moreover have "length (g ! t) = ?N" using sl [OF t] by simp
    ultimately show "?d ! t ! i = fsum (map (\<lambda>j. g ! t ! i ! j) [0..<?N])"
      using t i lg by simp
  qed
  have last: "?d ! (?T - 1) = map (\<lambda>x. fdiv x (fsum ?a)) ?a"
    using lg T by simp
  have c3: "\<forall>i<?N. ?d ! (?T - 1) ! i = fdiv (?a ! i) (fsum ?a)"
    unfolding last using la by simp
  have c4: "list_all is_finite ?a \<and> fsum ?a \<noteq> Fin 0 \<longrightarrow> fsum (?d ! (?T - 1)) = Fin 1"
    unfolding last using normalized_row_sums_to_one by blast
  show ?thesis
    using both c1 c2 c3 c4 by blast
qed

theorem posterior_tables_witness:
  "shaped ex_fb \<and> tables_ok ex_fb \<and> indices_ok ex_fb \<and> 0 < n_observations ex_fb \<and>
   list_all is_finite (forward ex_fb ! (n_observations ex_fb - 1)) \<and>
   fsum (forward ex_fb ! (n_observations ex_fb - 1)) \<noteq> Fin 0 \<and>
   ebind (calc_gamma ex_fb) calc_delta =
     Inr (ex_fb\<lparr>gamma := [[[Fin (8/31), Fin (12/31)], [Fin (2/31), Fin (9/31)]],
                           [[Fin 0, Fin 0], [Fin 0, Fin 0]]],
                delta := [[Fin (20/31), Fin (11/31)], [Fin (10/31), Fin (21/31)]]\<rparr>) \<and>
   fsum [Fin (10/31), Fin (21/31)] = Fin 1"
  using posterior_tables [of ex_fb]
  by (simp add: ex_fb_def ex_defs step_defs is_finite_def)

text \<open>
  Claim C5 as stated fails. The constructor accepts the model \<open>deg_hmm\<close>, and \<open>train\<close>
  sets up the observations 0, 1 with the indices 0, 1, both below the two observation
  classes. The forward and backward pass give \<open>alpha[1] = (0, 0)\<close>, whose sum is zero. The
  posterior steps return normally and leave the last row \<open>delta[1] = (NaN, NaN)\<close>, which
  does not sum to 1.
\<close>

theorem posterior_last_row_counterexample:
  "init ex_A deg_B = Inr deg_hmm \<and>
   train deg_hmm [0, 1] 0 = Inr (ex_state\<lparr>p_emission := deg_B\<rparr>) \<and>
   ebind (calc_forward_probabilities (ex_state\<lparr>p_emission := deg_B\<rparr>))
     calc_backward_probabilities = Inr deg_fb \<and>
   ebind (calc_gamma deg_fb) calc_delta =
     Inr (deg_fb\<lparr>gamma := [[[NaN, NaN], [NaN, NaN]], [[Fin 0, Fin 0], [Fin 0, Fin 0]]],
                 delta := [[NaN, NaN], [NaN, NaN]]\<rparr>) \<and>
   fsum [NaN, NaN] = NaN"
proof -
  have "init ex_A deg_B = Inr deg_hmm"
    by (simp add: init_def ex_A_def deg_B_def deg_hmm_def ex_hmm_def np_allclose_def
        col_sums_def ncols_def fsum_def upt_3 upt_2)
  moreover have "train deg_hmm [0, 1] 0 = Inr (ex_state\<lparr>p_emission := deg_B\<rparr>)"
    by (simp add: train_def deg_hmm_def deg_B_def ex_defs step_defs)
  moreover have "ebind (calc_forward_probabilities (ex_state\<lparr>p_emission := deg_B\<rparr>))
     calc_backward_probabilities = Inr deg_fb"
    by (simp add: deg_fb_def deg_B_def ex_defs step_defs)
  moreover have "ebind (calc_gamma deg_fb) calc_delta =
     Inr (deg_fb\<lparr>gamma := [[[NaN, NaN], [NaN, NaN]], [[Fin 0, Fin 0], [Fin 0, Fin 0]]],
                 delta := [[NaN, NaN], [NaN, NaN]]\<rparr>)"
    by (simp add: deg_fb_def deg_B_def ex_defs step_defs)
  ultimately show ?thesis by (simp add: fsum_def)
qed

section \<open>The maximization step and degenerate normalizers\<close>

text \<open>
  Claim C1 on the code. From the model with \<open>A[0,1] = 1/4\<close>, \<open>A[1,0] = 1/2\<close> the
  constructor builds \<open>ex_hmm\<close>, and one iteration of training on the observations 0, 1
  ends in \<open>ex_trained\<close>. The new entry in row 0 and column 1 of the transition matrix,
  the transition from state 1 to state 0, is \<open>3/5\<close>: the sum of \<open>gamma[t,0,1]\<close> over the
  sum of \<open>delta[t,0]\<close>, the expected transitions from state 0 to state 1. The claim gives
  this entry the sum of \<open>gamma[t,1,0]\<close> over the sum of \<open>delta[t,1]\<close>, which is \<open>2/11\<close>.
  The columns of the new matrix do not sum to 1.
\<close>

theorem transition_update_transposed:
  "init ex_A ex_B = Inr ex_hmm \<and>
   train ex_hmm [0, 1] 1 = Inr ex_trained \<and>
   p_transition ex_trained ! 0 ! 1 = Fin (3/5) \<and>
   fdiv (gamma_sum ex_trained 0 1) (delta_sum ex_trained 0) = Fin (3/5) \<and>
   fdiv (gamma_sum ex_trained 1 0) (delta_sum ex_trained 1) = Fin (2/11) \<and>
   col_sums (p_transition ex_trained) = [Fin (32/55), Fin (78/55), Fin 1]"
proof -
  have "train ex_hmm [0, 1] 1 = Inr ex_trained"
    by (simp add: train_def ex_trained_def ex_defs step_defs)
  moreover have "p_transition ex_trained ! 0 ! 1 = Fin (3/5)"
    by (simp add: ex_trained_def)
  moreover have "fdiv (gamma_sum ex_trained 0 1) (delta_sum ex_trained 0) = Fin (3/5)"
    by (simp add: ex_trained_def gamma_sum_def delta_sum_def fsum_def)
  moreover have "fdiv (gamma_sum ex_trained 1 0) (delta_sum ex_trained 1) = Fin (2/11)"
    by (simp add: ex_trained_def gamma_sum_def delta_sum_def fsum_def)
  moreover have "col_sums (p_transition ex_trained) = [Fin (32/55), Fin (78/55), Fin 1]"
    by (simp add: ex_trained_def col_sums_def ncols_def fsum_def upt_3)
  ultimately show ?thesis using init_ex by simp
qed

text \<open>
  Claim C7, as the code has it. No step checks a normalizer. For a model of the documented
  shape, tables of the shape that \<open>train\<close> allocates and a sequence of \<open>T \<ge> 1\<close>
  observations whose indices address rows of the emission matrix, \<open>calc_gamma\<close>,
  \<open>calc_delta\<close> and \<open>update_p_transition\<close> return normally; where the normalizer is zero
  -- the dot product of \<open>alpha[t]\<close> and \<open>beta[t]\<close>, the sum of \<open>alpha[T-1]\<close>, the sum over
  \<open>t \<le> T - 2\<close> of \<open>delta[t,i]\<close> -- every entry divided by it is NaN or an infinity.
\<close>

theorem zero_normalizer_gives_nan:
  assumes sh: "shaped s" and tb: "tables_ok s" and io: "indices_ok s"
    and T: "0 < n_observations s"
  shows "(\<exists>\<gamma>. calc_gamma s = Inr (s\<lparr>gamma := \<gamma>\<rparr>) \<and>
            (\<forall>t. t + 1 < n_observations s \<and> dot (forward s ! t) (backward s ! t) = Fin 0 \<longrightarrow>
               (\<forall>i<n_hidden_states s. \<forall>j<n_hidden_states s. \<not> is_finite (\<gamma> ! t ! i ! j)))) \<and>
         (\<exists>\<delta>. calc_delta s = Inr (s\<lparr>delta := \<delta>\<rparr>) \<and>
            (fsum (forward s ! (n_observations s - 1)) = Fin 0 \<longrightarrow>
               (\<forall>i<n_hidden_states s. \<not> is_finite (\<delta> ! (n_observations s - 1) ! i)))) \<and>
         (\<exists>a. update_p_transition s = Inr (s\<lparr>p_transition := a\<rparr>) \<and>
            (\<forall>i<n_hidden_states s. delta_sum s i = Fin 0 \<longrightarrow>
               (\<forall>j<n_hidden_states s. \<not> is_finite (a ! i ! j))))"
proof (intro conjI)
  let ?N = "n_hidden_states s" and ?T = "n_observations s"
  from calc_gamma_result [OF sh tb io]
  obtain g where run: "calc_gamma s = Inr (s\<lparr>gamma := g\<rparr>)"
    and sl: "\<And>t. t + 1 < ?T \<Longrightarrow>
      g ! t = map (\<lambda>i. map (\<lambda>j.
                 fdiv (fmul (fmul (fmul (forward s ! t ! i) (p_transition s ! j ! i))
                                  (backward s ! (t + 1) ! j))
                            (p_emission s ! nat (observation_indices s ! (t + 1)) ! j))
                      (dot (forward s ! t) (backward s ! t)))
                 [0..<?N]) [0..<?N]"
    by blast
  have "\<forall>t. t + 1 < ?T \<and> dot (forward s ! t) (backward s ! t) = Fin 0 \<longrightarrow>
          (\<forall>i<?N. \<forall>j<?N. \<not> is_finite (g ! t ! i ! j))"
    using sl by (simp add: fdiv_zero_not_finite)
  with run show "\<exists>\<gamma>. calc_gamma s = Inr (s\<lparr>gamma := \<gamma>\<rparr>) \<and>
            (\<forall>t. t + 1 < ?T \<and> dot (forward s ! t) (backward s ! t) = Fin 0 \<longrightarrow>
               (\<forall>i<?N. \<forall>j<?N. \<not> is_finite (\<gamma> ! t ! i ! j)))"
    by blast
next
  let ?N = "n_hidden_states s" and ?T = "n_observations s"
  let ?a = "forward s ! (?T - 1)"
  let ?d = "(map (map fsum) (gamma s))[?T - 1 := map (\<lambda>x. fdiv x (fsum ?a)) ?a]"
  have run: "calc_delta s = Inr (s\<lparr>delta := ?d\<rparr>)"
    by (rule calc_delta_result [OF tables_ok_lengths(2) [OF tb] tables_ok_lengths(4) [OF tb] T])
  have la: "length ?a = ?N" using tables_ok_rows(1) [OF tb, of "?T - 1"] T by simp
  have last: "?d ! (?T - 1) = map (\<lambda>x. fdiv x (fsum ?a)) ?a"
    using tables_ok_lengths(4) [OF tb] T by simp
  have "fsum ?a = Fin 0 \<longrightarrow> (\<forall>i<?N. \<not> is_finite (?d ! (?T - 1) ! i))"
    unfolding last using la by (simp add: fdiv_zero_not_finite)
  with run show "\<exists>\<delta>. calc_delta s = Inr (s\<lparr>delta := \<delta>\<rparr>) \<and>
            (fsum ?a = Fin 0 \<longrightarrow> (\<forall>i<?N. \<not> is_finite (\<delta> ! (?T - 1) ! i)))"
    by blast
next
  let ?N = "n_hidden_states s"
  from update_p_transition_result [OF sh tb T]
  obtain a where run: "update_p_transition s = Inr (s\<lparr>p_transition := a\<rparr>)"
    and ent: "\<forall>i<?N. \<forall>j<?N. a ! i ! j = fdiv (gamma_sum s i j) (delta_sum s i)"
    by blast
  have "\<forall>i<?N. delta_sum s i = Fin 0 \<longrightarrow> (\<forall>j<?N. \<not> is_finite (a ! i ! j))"
    using ent by (simp add: fdiv_zero_not_finite)
  with run show "\<exists>a. update_p_transition s = Inr (s\<lparr>p_transition := a\<rparr>) \<and>
            (\<forall>i<?N. delta_sum s i = Fin 0 \<longrightarrow> (\<forall>j<?N. \<not> is_finite (a ! i ! j)))"
    by blast
qed

theorem zero_normalizer_gives_nan_witness:
  "shaped deg_fb \<and> tables_ok deg_fb \<and> indices_ok deg_fb \<and> 0 < n_observations deg_fb \<and>
   dot (forward deg_fb ! 0) (backward deg_fb ! 0) = Fin 0 \<and>
   fsum (forward deg_fb ! (n_observations deg_fb - 1)) = Fin 0 \<and>
   delta_sum deg_fb 0 = Fin 0 \<and>
   calc_gamma deg_fb =
     Inr (deg_fb\<lparr>gamma := [[[NaN, NaN], [NaN, NaN]], [[Fin 0, Fin 0], [Fin 0, Fin 0]]]\<rparr>) \<and>
   calc_delta deg_fb = Inr (deg_fb\<lparr>delta := [[Fin 0, Fin 0], [NaN, NaN]]\<rparr>) \<and>
   update_p_transition deg_fb =
     Inr (deg_fb\<lparr>p_transition := [[NaN, NaN, Fin 0], [NaN, NaN, Fin 0], [Fin 0, Fin 0, Fin 0]]\<rparr>)"
  using zero_normalizer_gives_nan [of deg_fb]
  by (simp add: deg_fb_def deg_B_def ex_defs step_defs)

text \<open>
  Claim C7 as stated fails. The constructor accepts the model \<open>deg_hmm\<close>. On the
  observations 0, 1 the first forward and backward pass give \<open>alpha[0] = (1/2, 1/2)\<close> and
  \<open>beta[0] = (0, 0)\<close>, so the normalizer of \<open>gamma[0]\<close> is zero, and \<open>alpha[1] = (0, 0)\<close>,
  so the normalizer of the last row of \<open>delta\<close> is zero. Training with one iteration
  returns normally, with NaN in both matrices.
\<close>

theorem degenerate_training_counterexample:
  "init ex_A deg_B = Inr deg_hmm \<and>
   dot [Fin (1/2), Fin (1/2)] [Fin 0, Fin 0] = Fin 0 \<and>
   fsum [Fin 0, Fin 0] = Fin 0 \<and>
   train deg_hmm [0, 1] 1 =
     Inr (deg_fb\<lparr>p_transition := [[NaN, NaN, NaN], [NaN, NaN, NaN], [Fin 0, Fin 0, Fin 0]],
                 p_emission := [[NaN, NaN], [NaN, NaN]],
                 gamma := [[[NaN, NaN], [NaN, NaN]], [[Fin 0, Fin 0], [Fin 0, Fin 0]]],
                 delta := [[NaN, NaN], [NaN, NaN]]\<rparr>)"
proof -
  have "init ex_A deg_B = Inr deg_hmm"
    by (simp add: init_def ex_A_def deg_B_def deg_hmm_def ex_hmm_def np_allclose_def
        col_sums_def ncols_def fsum_def upt_3 upt_2)
  moreover have "train deg_hmm [0, 1] 1 =
     Inr (deg_fb\<lparr>p_transition := [[NaN, NaN, NaN], [NaN, NaN, NaN], [Fin 0, Fin 0, Fin 0]],
                 p_emission := [[NaN, NaN], [NaN, NaN]],
                 gamma := [[[NaN, NaN], [NaN, NaN]], [[Fin 0, Fin 0], [Fin 0, Fin 0]]],
                 delta := [[NaN, NaN], [NaN, NaN]]\<rparr>)"
    by (simp add: train_def deg_hmm_def deg_fb_def deg_B_def ex_defs step_defs)
  ultimately show ?thesis by (simp add: dot_def vmul_def fsum_def)
qed

section \<open>The concrete scenario\<close>

text \<open>
  Claim C2 on the code. The constructor accepts the model of the scenario, and training
  on the observations 0, 0, 1, 0 with five iterations returns normally. In the resulting
  transition matrix the column of state 0 sums to a number between 0.992 and 0.993, so the
  matrix is not column-stochastic within the tolerance \<open>1e-7\<close>. The bound comes from running
  the five iterations on boxes that enclose the exact values.
\<close>

theorem scenario_training_not_column_stochastic:
  "\<exists>s c. init scen_A scen_B = Inr scen_hmm \<and>
          train scen_hmm [0, 0, 1, 0] 5 = Inr s \<and>
          col_sums (p_transition s) ! 0 = Fin c \<and>
          992 / 1000 < c \<and> c < 993 / 1000"
proof -
  let ?body = "\<lambda>(i::nat) s'. ebind (expectation s') maximization"
  define s0 where "s0 = scen_hmm\<lparr>observations := [0, 0, 1, 0], n_observations := 4,
      observation_indices := [0, 0, 1, 0], observation_labels := [0, 1],
      forward := replicate 4 (replicate 2 (Fin 0)),
      backward := replicate 4 (replicate 2 (Fin 0)),
      gamma := replicate 4 (replicate 2 (replicate 2 (Fin 0))),
      delta := replicate 4 (replicate 2 (Fin 0))\<rparr>"
  have tr: "train scen_hmm [0, 0, 1, 0] 5 = for_loop [0..<5] ?body s0"
    by (simp add: train_def renumber_observations_def py_min_def scen_hmm_def s0_def
        eval_nat_numeral)
  have e: "encl (700000000000, 700000000000) (Fin (7/10))"
    "encl (300000000000, 300000000000) (Fin (3/10))"
    "encl (500000000000, 500000000000) (Fin (1/2))"
    "encl (900000000000, 900000000000) (Fin (9/10))"
    "encl (200000000000, 200000000000) (Fin (2/10))"
    "encl (100000000000, 100000000000) (Fin (1/10))"
    "encl (800000000000, 800000000000) (Fin (8/10))"
    by (rule encl_FinI; simp add: scaled_def scale_def)+
  have i0: "scen_inv box0 s0"
    using e by (simp add: scen_inv_def box_shaped_def box0_def s0_def scen_hmm_def scen_A_def
        scen_B_def eval_nat_numeral)
  from iter_sound [OF i0] obtain s1 where r1: "?body 0 s0 = Inr s1" and i1: "scen_inv box1 s1"
    unfolding box_step_1 by blast
  from iter_sound [OF i1] obtain s2 where r2: "?body 1 s1 = Inr s2" and i2: "scen_inv box2 s2"
    unfolding box_step_2 by blast
  from iter_sound [OF i2] obtain s3 where r3: "?body 2 s2 = Inr s3" and i3: "scen_inv box3 s3"
    unfolding box_step_3 by blast
  from iter_sound [OF i3] obtain s4 where r4: "?body 3 s3 = Inr s4" and i4: "scen_inv box4 s4"
    unfolding box_step_4 by blast
  from iter_sound [OF i4] obtain s5 where r5: "?body 4 s4 = Inr s5" and i5: "scen_inv box5 s5"
    unfolding box_step_5 by blast
  have "[0..<5] = [0, 1, 2, 3, 4]" by (simp add: upt_rec)
  then have run: "train scen_hmm [0, 0, 1, 0] 5 = Inr s5"
    using r1 r2 r3 r4 r5 by (simp add: tr)
  from i5 have lA: "length (p_transition s5) = 3"
    and stop: "p_transition s5 ! 2 = [Fin 0, Fin 0, Fin 0]"
    and EA: "list_all2 (list_all2 encl) (fst box5) (butlast (p_transition s5))"
    by (simp_all add: scen_inv_def)
  from lA obtain r0 r1' r2' where rows: "p_transition s5 = [r0, r1', r2']"
    by (auto simp add: eval_nat_numeral length_Suc_conv)
  from EA obtain a00 a01 a02 a10 a11 a12 where
    rr: "r0 = [a00, a01, a02]" "r1' = [a10, a11, a12]"
    and e00: "encl (440067816007, 440168072949) a00"
    and e10: "encl (552317441410, 552443275135) a10"
    unfolding rows box5_def by (auto simp add: list_all2_Cons1)
  from e00 obtain x where x: "a00 = Fin x" "440067816007 / 1000000000000 \<le> x"
    "x \<le> 440168072949 / 1000000000000"
    by (auto simp add: encl_def scaled_def scale_def)
  from e10 obtain y where y: "a10 = Fin y" "552317441410 / 1000000000000 \<le> y"
    "y \<le> 552443275135 / 1000000000000"
    by (auto simp add: encl_def scaled_def scale_def)
  have cs: "col_sums (p_transition s5) ! 0 = Fin (x + y)"
    using stop by (simp add: rows rr x y col_sums_def ncols_def fsum_def upt_rec)
  have "992 / 1000 < x + y" "x + y < 993 / 1000"
    using x y by simp_all
  with run cs init_scen show ?thesis by blast
qed

end
